theory Spec2Isabelle
  imports Complex_Main "HOL-Library.Word"
begin

section \<open>Numbers and rectangles\<close>

text \<open>
  The card compositor computes with JavaScript numbers. Every quantity of the layout
  engine is a pixel count or a small decimal constant (1.5, 0.95, ...), so numbers are
  modelled as real numbers: sums, products and comparisons are exact. \<open>Math.round\<close>
  rounds half-way cases towards plus infinity, \<open>Math.ceil\<close> is the ceiling.
\<close>

definition Math_round :: "real \<Rightarrow> real" where
  "Math_round v = of_int \<lfloor>v + 1 / 2\<rfloor>"

definition Math_ceil :: "real \<Rightarrow> real" where
  "Math_ceil v = of_int \<lceil>v\<rceil>"

text \<open>
  \<open>FrameRect\<close> and \<open>TextBoxRect\<close> of cardComposer.ts (\<open>ScalableRect\<close> and
  \<open>ScalableRectWithId\<close> of scaleConfig.ts): a text box is a rectangle with an id.
\<close>

record FrameRect =
  x :: real
  y :: real
  width :: real
  height :: real

record TextBoxRect = FrameRect +
  boxId :: string

record Canvas =
  cwidth :: real
  cheight :: real

record LayoutConfig =
  canvas :: Canvas
  artworkFrame :: FrameRect
  titleBox :: TextBoxRect
  contentBoxes :: "TextBoxRect list"

section \<open>Scale presets (scaleConfig.ts)\<close>

text \<open>
  The compositor imports these functions from a module of the same name; the
  definitions below serve for both.
\<close>

datatype ScalePreset = standard | moderate | compact' | slim | mini

definition SCALE_PRESETS :: "ScalePreset \<Rightarrow> real" where
  "SCALE_PRESETS p = (case p of
      standard \<Rightarrow> 1
    | moderate \<Rightarrow> 95 / 100
    | compact' \<Rightarrow> 90 / 100
    | slim \<Rightarrow> 80 / 100
    | mini \<Rightarrow> 70 / 100)"

definition getScaleConfig :: "ScalePreset \<Rightarrow> real" where
  "getScaleConfig preset = SCALE_PRESETS preset"

text \<open>
  \<open>scaleRect\<close> keeps every other field of its argument (\<open>...rect\<close>), so it is a
  record update on the extensible rectangle.
\<close>

definition scaleRect ::
  "'a FrameRect_scheme \<Rightarrow> real \<Rightarrow> real \<Rightarrow> real \<Rightarrow> 'a FrameRect_scheme" where
  "scaleRect rect scaleFactor centerX centerY =
    (let rectCenterX = x rect + width rect / 2;
         rectCenterY = y rect + height rect / 2;
         offsetX = rectCenterX - centerX;
         offsetY = rectCenterY - centerY;
         scaledOffsetX = offsetX * scaleFactor;
         scaledOffsetY = offsetY * scaleFactor;
         scaledWidth = width rect * scaleFactor;
         scaledHeight = height rect * scaleFactor;
         newCenterX = centerX + scaledOffsetX;
         newCenterY = centerY + scaledOffsetY;
         newX = newCenterX - scaledWidth / 2;
         newY = newCenterY - scaledHeight / 2
     in rect\<lparr>x := Math_round newX, y := Math_round newY,
              width := Math_round scaledWidth, height := Math_round scaledHeight\<rparr>)"

definition applyScaleFactor :: "LayoutConfig \<Rightarrow> real \<Rightarrow> LayoutConfig" where
  "applyScaleFactor layout scaleFactor =
    (let clampedFactor = max (70 / 100) (min 1 scaleFactor)
     in if clampedFactor = 1 then layout
        else
          (let centerX = cwidth (canvas layout) / 2;
               centerY = cheight (canvas layout) / 2
           in layout\<lparr>canvas := canvas layout,
                     artworkFrame := scaleRect (artworkFrame layout) clampedFactor centerX centerY,
                     titleBox := scaleRect (titleBox layout) clampedFactor centerX centerY,
                     contentBoxes :=
                       map (\<lambda>box. scaleRect box clampedFactor centerX centerY)
                         (contentBoxes layout)\<rparr>))"

definition applyScalePreset :: "LayoutConfig \<Rightarrow> ScalePreset \<Rightarrow> LayoutConfig" where
  "applyScalePreset layout preset = applyScaleFactor layout (getScaleConfig preset)"

section \<open>The layout catalogue (cardComposer.ts)\<close>

datatype LayoutVariant = landscape_square | landscape_flat | portrait_square | portrait_flat

datatype LayoutMode = landscape | portrait

definition mkFrame :: "real \<Rightarrow> real \<Rightarrow> real \<Rightarrow> real \<Rightarrow> FrameRect" where
  "mkFrame a b w h = \<lparr>x = a, y = b, width = w, height = h\<rparr>"

definition mkBox :: "string \<Rightarrow> real \<Rightarrow> real \<Rightarrow> real \<Rightarrow> real \<Rightarrow> TextBoxRect" where
  "mkBox i a b w h = \<lparr>x = a, y = b, width = w, height = h, boxId = i\<rparr>"

definition LAYOUT_VARIANTS :: "LayoutVariant \<Rightarrow> LayoutConfig" where
  "LAYOUT_VARIANTS v = (case v of
      landscape_square \<Rightarrow>
        \<lparr>canvas = \<lparr>cwidth = 1024, cheight = 768\<rparr>,
         artworkFrame = mkFrame 40 40 390 688,
         titleBox = mkBox ''title'' 480 40 504 100,
         contentBoxes =
           [mkBox ''content1'' 480 190 227 244, mkBox ''content2'' 757 190 227 244,
            mkBox ''content3'' 480 484 227 244, mkBox ''content4'' 757 484 227 244]\<rparr>
    | landscape_flat \<Rightarrow>
        \<lparr>canvas = \<lparr>cwidth = 1024, cheight = 768\<rparr>,
         artworkFrame = mkFrame 40 40 390 688,
         titleBox = mkBox ''title'' 480 124 504 100,
         contentBoxes =
           [mkBox ''content1'' 480 274 227 160, mkBox ''content2'' 757 274 227 160,
            mkBox ''content3'' 480 484 227 160, mkBox ''content4'' 757 484 227 160]\<rparr>
    | portrait_square \<Rightarrow>
        \<lparr>canvas = \<lparr>cwidth = 768, cheight = 1024\<rparr>,
         artworkFrame = mkFrame 144 40 480 480,
         titleBox = mkBox ''title'' 144 570 480 70,
         contentBoxes =
           [mkBox ''content1'' 144 690 215 130, mkBox ''content2'' 409 690 215 130,
            mkBox ''content3'' 144 870 215 110, mkBox ''content4'' 409 870 215 110]\<rparr>
    | portrait_flat \<Rightarrow>
        \<lparr>canvas = \<lparr>cwidth = 768, cheight = 1024\<rparr>,
         artworkFrame = mkFrame 144 40 480 480,
         titleBox = mkBox ''title'' 144 570 480 70,
         contentBoxes =
           [mkBox ''content1'' 144 690 215 90, mkBox ''content2'' 409 690 215 90,
            mkBox ''content3'' 144 830 215 90, mkBox ''content4'' 409 830 215 90]\<rparr>)"

definition LANDSCAPE_LAYOUT :: LayoutConfig where
  "LANDSCAPE_LAYOUT = LAYOUT_VARIANTS landscape_square"

definition PORTRAIT_LAYOUT :: LayoutConfig where
  "PORTRAIT_LAYOUT = LAYOUT_VARIANTS portrait_square"

definition getLayoutConfig :: "LayoutMode \<Rightarrow> LayoutConfig" where
  "getLayoutConfig m = (if m = landscape then LANDSCAPE_LAYOUT else PORTRAIT_LAYOUT)"

definition getLayoutConfigByVariant :: "LayoutVariant \<Rightarrow> LayoutConfig" where
  "getLayoutConfigByVariant variant = LAYOUT_VARIANTS variant"

definition getLayoutModeFromVariant :: "LayoutVariant \<Rightarrow> LayoutMode" where
  "getLayoutModeFromVariant variant =
    (case variant of landscape_square \<Rightarrow> landscape | landscape_flat \<Rightarrow> landscape
     | portrait_square \<Rightarrow> portrait | portrait_flat \<Rightarrow> portrait)"

definition getAllTextBoxes :: "LayoutConfig \<Rightarrow> TextBoxRect list" where
  "getAllTextBoxes layout = titleBox layout # contentBoxes layout"

text \<open>
  The scaling step of \<open>composeCard\<close>: the preset is applied only when one is given and
  it is not \<open>standard\<close>.
\<close>

definition composeCard_scaledLayout :: "LayoutConfig \<Rightarrow> ScalePreset option \<Rightarrow> LayoutConfig" where
  "composeCard_scaledLayout layout scalePreset =
    (case scalePreset of
       None \<Rightarrow> layout
     | Some p \<Rightarrow> if p \<noteq> standard then applyScalePreset layout p else layout)"

section \<open>Errors\<close>

text \<open>
  Every \<open>throw\<close> of the modelled code is a value of \<open>Error\<close>; a function that may
  throw returns \<open>Error + 'a\<close>. The messages are replaced by constructors.
\<close>

datatype Error =
    InvalidPreset string
  | AssetNotFound string
  | UnsupportedAssetFormat string
  | EmptyArtwork
  | ArtworkSizeUnreadable
  | UndecodableInput
  | BadSvgDimensions

definition bindE :: "Error + 'a \<Rightarrow> ('a \<Rightarrow> Error + 'b) \<Rightarrow> Error + 'b" where
  "bindE m f = (case m of Inl e \<Rightarrow> Inl e | Inr v \<Rightarrow> f v)"

fun mapE :: "('a \<Rightarrow> Error + 'b) \<Rightarrow> 'a list \<Rightarrow> Error + 'b list" where
  "mapE f [] = Inr []"
| "mapE f (a # as) =
    (case f a of
       Inl e \<Rightarrow> Inl e
     | Inr b \<Rightarrow> (case mapE f as of Inl e \<Rightarrow> Inl e | Inr bs \<Rightarrow> Inr (b # bs)))"

section \<open>Border geometry (borderRenderer.ts)\<close>

record DoubleLineBorderStyle =
  outerWidth :: real
  innerWidth :: real
  gap :: real
  outerGradient :: "string list"
  innerStrokeColor :: string
  innerStrokeOpacity :: real

text \<open>
  \<open>Partial<DoubleLineBorderStyle>\<close>: every field may be absent. Merging it over a
  full style (\<open>{...base, ...customStyle}\<close>) replaces exactly the fields present.
\<close>

record PartialBorderStyle =
  p_outerWidth :: "real option"
  p_innerWidth :: "real option"
  p_gap :: "real option"
  p_outerGradient :: "string list option"
  p_innerStrokeColor :: "string option"
  p_innerStrokeOpacity :: "real option"

definition mergeStyle ::
  "DoubleLineBorderStyle \<Rightarrow> PartialBorderStyle option \<Rightarrow> DoubleLineBorderStyle" where
  "mergeStyle base customStyle =
    (case customStyle of
       None \<Rightarrow> base
     | Some c \<Rightarrow>
        \<lparr>outerWidth = (case p_outerWidth c of None \<Rightarrow> outerWidth base | Some v \<Rightarrow> v),
         innerWidth = (case p_innerWidth c of None \<Rightarrow> innerWidth base | Some v \<Rightarrow> v),
         gap = (case p_gap c of None \<Rightarrow> gap base | Some v \<Rightarrow> v),
         outerGradient = (case p_outerGradient c of None \<Rightarrow> outerGradient base | Some v \<Rightarrow> v),
         innerStrokeColor =
           (case p_innerStrokeColor c of None \<Rightarrow> innerStrokeColor base | Some v \<Rightarrow> v),
         innerStrokeOpacity =
           (case p_innerStrokeOpacity c of None \<Rightarrow> innerStrokeOpacity base | Some v \<Rightarrow> v)\<rparr>)"

record OuterGlowConfig =
  blur :: real
  color :: string
  opacity :: real
  spread :: real

datatype GlowIntensity = subtle | medium | strong | none

definition GLOW_PRESETS :: "GlowIntensity \<Rightarrow> OuterGlowConfig" where
  "GLOW_PRESETS g = (case g of
      subtle \<Rightarrow> \<lparr>blur = 4, color = ''#FFD700'', opacity = 15 / 100, spread = 2\<rparr>
    | medium \<Rightarrow> \<lparr>blur = 6, color = ''#FFD700'', opacity = 22 / 100, spread = 3\<rparr>
    | strong \<Rightarrow> \<lparr>blur = 8, color = ''#FFD700'', opacity = 30 / 100, spread = 4\<rparr>
    | none \<Rightarrow> \<lparr>blur = 0, color = ''#FFD700'', opacity = 0, spread = 0\<rparr>)"

definition DEFAULT_GLOW_CONFIG :: OuterGlowConfig where
  "DEFAULT_GLOW_CONFIG = GLOW_PRESETS medium"

definition getGlowConfig :: "GlowIntensity \<Rightarrow> OuterGlowConfig" where
  "getGlowConfig intensity = GLOW_PRESETS intensity"

definition ENHANCED_ARTWORK_BORDER :: DoubleLineBorderStyle where
  "ENHANCED_ARTWORK_BORDER =
    \<lparr>outerWidth = 5, innerWidth = 3 / 2, gap = 3 / 2,
     outerGradient = [''#FFE4A0'', ''#D4AF37'', ''#B8860B'', ''#D4AF37'', ''#FFE4A0''],
     innerStrokeColor = ''#000000'', innerStrokeOpacity = 4 / 10\<rparr>"

definition ENHANCED_TEXTBOX_BORDER :: DoubleLineBorderStyle where
  "ENHANCED_TEXTBOX_BORDER =
    \<lparr>outerWidth = 4, innerWidth = 1, gap = 1,
     outerGradient = [''#B8A080'', ''#8B7355'', ''#6B5335'', ''#8B7355'', ''#B8A080''],
     innerStrokeColor = ''#000000'', innerStrokeOpacity = 35 / 100\<rparr>"

definition TEXT_BOX_BORDER_RADIUS :: real where
  "TEXT_BOX_BORDER_RADIUS = 10"

definition MIN_BORDER_GAP :: real where
  "MIN_BORDER_GAP = 2"

record BorderDimensions =
  bd_outerWidth :: real
  bd_gap :: real
  bd_innerWidth :: real
  bd_innerStroke :: real
  bd_glowPadding :: real

definition calculateTotalBorderSpace :: "BorderDimensions \<Rightarrow> real" where
  "calculateTotalBorderSpace border =
    bd_outerWidth border + bd_gap border + bd_innerWidth border + bd_innerStroke border
      + bd_glowPadding border"

definition getArtworkBorderDimensions :: "OuterGlowConfig option \<Rightarrow> BorderDimensions" where
  "getArtworkBorderDimensions glowConfig =
    (let glow = (case glowConfig of None \<Rightarrow> DEFAULT_GLOW_CONFIG | Some g \<Rightarrow> g)
     in \<lparr>bd_outerWidth = outerWidth ENHANCED_ARTWORK_BORDER,
         bd_gap = gap ENHANCED_ARTWORK_BORDER,
         bd_innerWidth = innerWidth ENHANCED_ARTWORK_BORDER,
         bd_innerStroke = 2,
         bd_glowPadding = (if opacity glow > 0 then Math_ceil (blur glow + spread glow) else 0)\<rparr>)"

definition getTextBoxBorderDimensions :: "OuterGlowConfig option \<Rightarrow> BorderDimensions" where
  "getTextBoxBorderDimensions glowConfig =
    (let glow = (case glowConfig of None \<Rightarrow> DEFAULT_GLOW_CONFIG | Some g \<Rightarrow> g)
     in \<lparr>bd_outerWidth = outerWidth ENHANCED_TEXTBOX_BORDER,
         bd_gap = gap ENHANCED_TEXTBOX_BORDER,
         bd_innerWidth = innerWidth ENHANCED_TEXTBOX_BORDER,
         bd_innerStroke = 2,
         bd_glowPadding = (if opacity glow > 0 then Math_ceil (blur glow + spread glow) else 0)\<rparr>)"

definition validateBorderGap ::
  "'a FrameRect_scheme \<Rightarrow> 'b FrameRect_scheme \<Rightarrow> BorderDimensions \<Rightarrow> BorderDimensions
     \<Rightarrow> real \<Rightarrow> bool" where
  "validateBorderGap frame1 frame2 border1Dimensions border2Dimensions minGap =
    (let border1Space = calculateTotalBorderSpace border1Dimensions;
         border2Space = calculateTotalBorderSpace border2Dimensions;
         frame1Left = x frame1 - border1Space;
         frame1Right = x frame1 + width frame1 + border1Space;
         frame1Top = y frame1 - border1Space;
         frame1Bottom = y frame1 + height frame1 + border1Space;
         frame2Left = x frame2 - border2Space;
         frame2Right = x frame2 + width frame2 + border2Space;
         frame2Top = y frame2 - border2Space;
         frame2Bottom = y frame2 + height frame2 + border2Space;
         horizontalGap = min \<bar>frame1Right - frame2Left\<bar> \<bar>frame2Right - frame1Left\<bar>;
         verticalGap = min \<bar>frame1Bottom - frame2Top\<bar> \<bar>frame2Bottom - frame1Top\<bar>;
         horizontalOverlap = (\<not> (frame1Right < frame2Left \<or> frame2Right < frame1Left));
         verticalOverlap = (\<not> (frame1Bottom < frame2Top \<or> frame2Bottom < frame1Top))
     in if \<not> horizontalOverlap \<and> \<not> verticalOverlap then True
        else if horizontalOverlap \<and> \<not> verticalOverlap then verticalGap \<ge> minGap
        else if \<not> horizontalOverlap \<and> verticalOverlap then horizontalGap \<ge> minGap
        else False)"

definition validateBorderWithinCanvas ::
  "'a FrameRect_scheme \<Rightarrow> BorderDimensions \<Rightarrow> real \<Rightarrow> real \<Rightarrow> bool" where
  "validateBorderWithinCanvas frame borderDimensions canvasWidth canvasHeight =
    (let borderSpace = calculateTotalBorderSpace borderDimensions;
         left = x frame - borderSpace;
         right = x frame + width frame + borderSpace;
         top = y frame - borderSpace;
         bottom = y frame + height frame + borderSpace
     in left \<ge> 0 \<and> right \<le> canvasWidth \<and> top \<ge> 0 \<and> bottom \<le> canvasHeight)"

text \<open>
  The border generators build an SVG document of the computed total size and rasterise
  it with \<open>sharp(Buffer.from(svg)).png().toBuffer()\<close>; the buffer they return is that
  raster. A raster has whole pixels: sharp gives it the size of the document with each
  dimension rounded to the nearest integer (halves upwards), and rejects a document whose
  rounded width or height is not at least one pixel. The model keeps, with the pixel
  size of the raster, the arguments the SVG is built from: its requested size, the
  merged style, the corner radius (absent for the square illustration border), the id
  prefix and the glow.
\<close>

record 'a Png =
  pngWidth :: real
  pngHeight :: real
  pngSource :: 'a

definition sharpSvg :: "real \<Rightarrow> real \<Rightarrow> 'a \<Rightarrow> Error + 'a Png" where
  "sharpSvg w h svg =
    (let pw = Math_round w; ph = Math_round h
     in if pw < 1 \<or> ph < 1 then Inl BadSvgDimensions
        else Inr \<lparr>pngWidth = pw, pngHeight = ph, pngSource = svg\<rparr>)"

record BorderSvg =
  svgWidth :: real
  svgHeight :: real
  svgStyle :: DoubleLineBorderStyle
  svgRadius :: "real option"
  svgId :: string
  svgGlow :: OuterGlowConfig

record BorderResult =
  buffer :: "BorderSvg Png"
  posX :: real
  posY :: real

definition createDoubleLineBorderSvg ::
  "real \<Rightarrow> real \<Rightarrow> DoubleLineBorderStyle \<Rightarrow> string \<Rightarrow> OuterGlowConfig option \<Rightarrow> BorderSvg" where
  "createDoubleLineBorderSvg w h style uniqueId glowConfig =
    \<lparr>svgWidth = w, svgHeight = h, svgStyle = style, svgRadius = None, svgId = uniqueId,
     svgGlow = (case glowConfig of None \<Rightarrow> DEFAULT_GLOW_CONFIG | Some g \<Rightarrow> g)\<rparr>"

definition createDoubleLineRoundedBorderSvg ::
  "real \<Rightarrow> real \<Rightarrow> DoubleLineBorderStyle \<Rightarrow> real \<Rightarrow> string \<Rightarrow> OuterGlowConfig option
     \<Rightarrow> BorderSvg" where
  "createDoubleLineRoundedBorderSvg w h style borderRadius uniqueId glowConfig =
    \<lparr>svgWidth = w, svgHeight = h, svgStyle = style, svgRadius = Some borderRadius,
     svgId = uniqueId,
     svgGlow = (case glowConfig of None \<Rightarrow> DEFAULT_GLOW_CONFIG | Some g \<Rightarrow> g)\<rparr>"

definition renderDoubleLineArtworkBorder ::
  "'a FrameRect_scheme \<Rightarrow> PartialBorderStyle option \<Rightarrow> OuterGlowConfig option
     \<Rightarrow> Error + BorderResult" where
  "renderDoubleLineArtworkBorder frame customStyle glowConfig =
    (let style = mergeStyle ENHANCED_ARTWORK_BORDER customStyle;
         glow = (case glowConfig of None \<Rightarrow> DEFAULT_GLOW_CONFIG | Some g \<Rightarrow> g);
         totalBorderWidth = outerWidth style + gap style + innerWidth style + 2;
         glowPadding = (if opacity glow > 0 then Math_ceil (blur glow + spread glow) else 0);
         totalWidth = width frame + totalBorderWidth * 2 + glowPadding * 2;
         totalHeight = height frame + totalBorderWidth * 2 + glowPadding * 2;
         borderSvg = createDoubleLineBorderSvg totalWidth totalHeight style ''artwork'' (Some glow)
     in bindE (sharpSvg (svgWidth borderSvg) (svgHeight borderSvg) borderSvg) (\<lambda>borderBuffer.
          Inr \<lparr>buffer = borderBuffer,
               posX = x frame - totalBorderWidth - glowPadding,
               posY = y frame - totalBorderWidth - glowPadding\<rparr>))"

definition renderDoubleLineTextBoxBorder ::
  "'a FrameRect_scheme \<Rightarrow> PartialBorderStyle option \<Rightarrow> string \<Rightarrow> OuterGlowConfig option
     \<Rightarrow> Error + BorderResult" where
  "renderDoubleLineTextBoxBorder frame customStyle uniqueId glowConfig =
    (let style = mergeStyle ENHANCED_TEXTBOX_BORDER customStyle;
         borderRadius = TEXT_BOX_BORDER_RADIUS;
         glow = (case glowConfig of None \<Rightarrow> DEFAULT_GLOW_CONFIG | Some g \<Rightarrow> g);
         totalBorderWidth = outerWidth style + gap style + innerWidth style + 2;
         glowPadding = (if opacity glow > 0 then Math_ceil (blur glow + spread glow) else 0);
         totalWidth = width frame + totalBorderWidth * 2 + glowPadding * 2;
         totalHeight = height frame + totalBorderWidth * 2 + glowPadding * 2;
         borderSvg = createDoubleLineRoundedBorderSvg totalWidth totalHeight style borderRadius
                       uniqueId (Some glow)
     in bindE (sharpSvg (svgWidth borderSvg) (svgHeight borderSvg) borderSvg) (\<lambda>borderBuffer.
          Inr \<lparr>buffer = borderBuffer,
               posX = x frame - totalBorderWidth - glowPadding,
               posY = y frame - totalBorderWidth - glowPadding\<rparr>))"

text \<open>
  Notions used to state the geometry properties. The border footprint of a style under
  a glow, as \<open>BorderDimensions\<close>; the padding of one edge; and the signed distance
  between the expanded boxes of two frames along each axis (positive when the boxes are
  apart, zero when they touch, negative when their ranges intersect).
\<close>

definition glowPaddingOf :: "OuterGlowConfig option \<Rightarrow> real" where
  "glowPaddingOf glowConfig =
    (let glow = (case glowConfig of None \<Rightarrow> DEFAULT_GLOW_CONFIG | Some g \<Rightarrow> g)
     in if opacity glow > 0 then Math_ceil (blur glow + spread glow) else 0)"


definition ringWidth :: "DoubleLineBorderStyle \<Rightarrow> real" where
  "ringWidth style = outerWidth style + gap style + innerWidth style + 2"

definition edgePadding :: "DoubleLineBorderStyle \<Rightarrow> OuterGlowConfig option \<Rightarrow> real" where
  "edgePadding style glowConfig = ringWidth style + glowPaddingOf glowConfig"

definition xSeparation ::
  "'a FrameRect_scheme \<Rightarrow> BorderDimensions \<Rightarrow> 'b FrameRect_scheme \<Rightarrow> BorderDimensions \<Rightarrow> real"
  where
  "xSeparation f1 b1 f2 b2 =
    max ((x f2 - calculateTotalBorderSpace b2) - (x f1 + width f1 + calculateTotalBorderSpace b1))
        ((x f1 - calculateTotalBorderSpace b1) - (x f2 + width f2 + calculateTotalBorderSpace b2))"

definition ySeparation ::
  "'a FrameRect_scheme \<Rightarrow> BorderDimensions \<Rightarrow> 'b FrameRect_scheme \<Rightarrow> BorderDimensions \<Rightarrow> real"
  where
  "ySeparation f1 b1 f2 b2 =
    max ((y f2 - calculateTotalBorderSpace b2) - (y f1 + height f1 + calculateTotalBorderSpace b1))
        ((y f1 - calculateTotalBorderSpace b1) - (y f2 + height f2 + calculateTotalBorderSpace b2))"

definition noBorder :: BorderDimensions where
  "noBorder = \<lparr>bd_outerWidth = 0, bd_gap = 0, bd_innerWidth = 0, bd_innerStroke = 0,
                bd_glowPadding = 0\<rparr>"

section \<open>Images and lookups\<close>

text \<open>
  A JavaScript string is a sequence of UTF-16 code units. Identifiers and paths of the
  code are ASCII and written as \<open>string\<close>; the text of a panel is a list of code units.
\<close>

type_synonym jsstring = "16 word list"

text \<open>
  Reading a key of an object literal yields the literal's own entry, or a member
  inherited from \<open>Object.prototype\<close> (a function or object, hence truthy, with no
  fields of a configuration), or \<open>undefined\<close>.
\<close>

datatype 'a Lookup = Own 'a | Inherited | Undefined

definition OBJECT_PROTOTYPE_KEYS :: "string list" where
  "OBJECT_PROTOTYPE_KEYS =
    [''constructor'', ''__proto__'', ''hasOwnProperty'', ''isPrototypeOf'',
     ''propertyIsEnumerable'', ''toLocaleString'', ''toString'', ''valueOf'',
     ''__defineGetter__'', ''__defineSetter__'', ''__lookupGetter__'', ''__lookupSetter__'']"

definition lookupKey :: "(string \<times> 'a) list \<Rightarrow> string \<Rightarrow> 'a Lookup" where
  "lookupKey table k =
    (case map_of table k of
       Some v \<Rightarrow> Own v
     | None \<Rightarrow> if k \<in> set OBJECT_PROTOTYPE_KEYS then Inherited else Undefined)"

text \<open>
  Buffers are symbolic: an input buffer records its byte length and what sharp reads as
  its metadata (nothing when the bytes are no image); every sharp pipeline of the code is
  a constructor applied to its source. Resizing and compositing are taken as total on
  decodable sources; rasterising an SVG document is \<open>sharpSvg\<close>.
\<close>

record InputBuffer =
  byteLength :: nat
  imageSize :: "(real \<times> real) option"

record TextSvg =
  textLines :: "jsstring list"
  textWidth :: real
  textHeight :: real
  textFontSize :: real

record BlurConfig =
  bc_id :: string
  bc_blur :: real
  bc_opacity :: real

datatype TextureType = matte_paper | silk | ink_wash | no_texture

record PanelSvg =
  panelWidth :: real
  panelHeight :: real
  panelGradient :: "string list"
  panelTexture :: TextureType
  panelBlur :: "BlurConfig Lookup"

datatype Image =
    Input InputBuffer
  | Asset string
  | ResizeFill Image real real
  | ResizeCover Image real real string
  | Rotate Image real
  | Flop Image
  | Flip Image
  | BorderRaster "BorderSvg Png"
  | PanelRaster "PanelSvg Png"
  | TextRaster "TextSvg Png"
  | Composite Image "(Image \<times> real \<times> real) list"

definition decodable :: "Image \<Rightarrow> bool" where
  "decodable img = (case img of Input b \<Rightarrow> imageSize b \<noteq> None | _ \<Rightarrow> True)"

definition sharpComposite :: "Image \<Rightarrow> (Image \<times> real \<times> real) list \<Rightarrow> Error + Image" where
  "sharpComposite base overlays =
    (if decodable base then Inr (Composite base overlays) else Inl UndecodableInput)"

section \<open>Blur and colour lookups (blurConfig.ts, cardComposer.ts)\<close>

definition BLUR_PRESETS :: "(string \<times> BlurConfig) list" where
  "BLUR_PRESETS =
    [(''light'', \<lparr>bc_id = ''light'', bc_blur = 8, bc_opacity = 90 / 100\<rparr>),
     (''medium'', \<lparr>bc_id = ''medium'', bc_blur = 12, bc_opacity = 85 / 100\<rparr>),
     (''strong'', \<lparr>bc_id = ''strong'', bc_blur = 16, bc_opacity = 78 / 100\<rparr>)]"

definition DEFAULT_BLUR_INTENSITY :: string where
  "DEFAULT_BLUR_INTENSITY = ''medium''"

text \<open>
  \<open>BLUR_PRESETS[blurIntensity] || BLUR_PRESETS['medium']\<close>: a truthy entry, own or
  inherited, is returned as it is; otherwise the medium preset. Nothing is thrown.
\<close>

definition getBlurConfig :: "string \<Rightarrow> Error + BlurConfig Lookup" where
  "getBlurConfig blurIntensity =
    (case lookupKey BLUR_PRESETS blurIntensity of
       Undefined \<Rightarrow> Inr (lookupKey BLUR_PRESETS ''medium'')
     | found \<Rightarrow> Inr found)"

definition PREMIUM_TEXTBOX_COLORS :: "(string \<times> string list) list" where
  "PREMIUM_TEXTBOX_COLORS =
    [(''obsidian'',
        [''rgba(35, 35, 40, 0.92)'', ''rgba(20, 20, 25, 0.88)'', ''rgba(25, 25, 30, 0.92)'']),
     (''bronze'',
        [''rgba(160, 130, 90, 0.92)'', ''rgba(140, 110, 70, 0.88)'', ''rgba(150, 120, 80, 0.92)'']),
     (''slate'',
        [''rgba(80, 90, 100, 0.92)'', ''rgba(60, 70, 80, 0.88)'', ''rgba(70, 80, 90, 0.92)'']),
     (''burgundy'',
        [''rgba(120, 50, 60, 0.92)'', ''rgba(100, 40, 50, 0.88)'', ''rgba(110, 45, 55, 0.92)'']),
     (''forest'',
        [''rgba(50, 80, 60, 0.92)'', ''rgba(40, 70, 50, 0.88)'', ''rgba(45, 75, 55, 0.92)'']),
     (''navy'',
        [''rgba(45, 60, 90, 0.92)'', ''rgba(35, 50, 80, 0.88)'', ''rgba(40, 55, 85, 0.92)''])]"

text \<open>
  \<open>PREMIUM_TEXTBOX_COLORS.find(c => c.id === colorId)\<close> searches the array itself, so
  no inherited member can be found; a miss falls back to the first entry.
\<close>

definition getTextBoxColorGradient :: "string \<Rightarrow> Error + string list" where
  "getTextBoxColorGradient colorId =
    (case find (\<lambda>c. fst c = colorId) PREMIUM_TEXTBOX_COLORS of
       Some c \<Rightarrow> Inr (snd c)
     | None \<Rightarrow> Inr (snd (hd PREMIUM_TEXTBOX_COLORS)))"

section \<open>Frame presets and the frame renderer (framePresets.ts, frameRenderer.ts)\<close>

text \<open>
  A preset without its display name, description and colour scheme, which the renderer
  never reads.
\<close>

record FramePresetConfig =
  fp_id :: string
  cornerAsset :: string
  borderAsset :: string
  cornerSize :: real
  fp_borderThickness :: real
  fp_insetOffset :: real

definition mkPreset :: "string \<Rightarrow> real \<Rightarrow> real \<Rightarrow> real \<Rightarrow> FramePresetConfig" where
  "mkPreset i cs bt io =
    \<lparr>fp_id = i, cornerAsset = ''frames/'' @ i @ ''/corner.svg'',
     borderAsset = ''frames/'' @ i @ ''/border.svg'',
     cornerSize = cs, fp_borderThickness = bt, fp_insetOffset = io\<rparr>"

definition FRAME_PRESETS :: "(string \<times> FramePresetConfig) list" where
  "FRAME_PRESETS =
    [(''cyber'', mkPreset ''cyber'' 100 20 10),
     (''classic'', mkPreset ''classic'' 110 25 8),
     (''minimal'', mkPreset ''minimal'' 80 15 12),
     (''fantasy'', mkPreset ''fantasy'' 105 22 10),
     (''battle'', mkPreset ''battle'' 95 24 8),
     (''none'', \<lparr>fp_id = ''none'', cornerAsset = [], borderAsset = [], cornerSize = 0,
                 fp_borderThickness = 0, fp_insetOffset = 0\<rparr>)]"

definition VALID_PRESET_IDS :: "string list" where
  "VALID_PRESET_IDS = [''cyber'', ''classic'', ''minimal'', ''fantasy'', ''battle'', ''none'']"

definition isDecorativePreset :: "string \<Rightarrow> bool" where
  "isDecorativePreset presetId = (presetId \<noteq> ''none'')"

record FrameRenderOptions =
  presetId :: string
  cardWidth :: real
  cardHeight :: real
  layoutVariant :: "LayoutVariant option"
  insetOffset :: "real option"
  borderThickness :: "real option"

datatype CornerPosition = top_left | top_right | bottom_left | bottom_right

datatype BorderPosition = edge_top | edge_right | edge_bottom | edge_left

definition ALL_CORNERS :: "CornerPosition list" where
  "ALL_CORNERS = [top_left, top_right, bottom_left, bottom_right]"

definition ALL_BORDERS :: "BorderPosition list" where
  "ALL_BORDERS = [edge_top, edge_right, edge_bottom, edge_left]"

definition CORNER_TRANSFORMS :: "CornerPosition \<Rightarrow> bool \<times> bool" where
  "CORNER_TRANSFORMS p = (case p of
      top_left \<Rightarrow> (False, False)
    | top_right \<Rightarrow> (True, False)
    | bottom_left \<Rightarrow> (False, True)
    | bottom_right \<Rightarrow> (True, True))"

definition getScaleFactorForLayout :: "LayoutVariant option \<Rightarrow> real" where
  "getScaleFactorForLayout lv =
    (case lv of
       None \<Rightarrow> 1
     | Some v \<Rightarrow> if getLayoutModeFromVariant v = portrait then 95 / 100 else 1)"

definition calculateCornerPosition ::
  "CornerPosition \<Rightarrow> real \<Rightarrow> real \<Rightarrow> real \<Rightarrow> real \<Rightarrow> real \<times> real" where
  "calculateCornerPosition position cw ch cs io =
    (case position of
       top_left \<Rightarrow> (io, io)
     | top_right \<Rightarrow> (cw - cs - io, io)
     | bottom_left \<Rightarrow> (io, ch - cs - io)
     | bottom_right \<Rightarrow> (cw - cs - io, ch - cs - io))"

definition calculateBorderPosition ::
  "BorderPosition \<Rightarrow> real \<Rightarrow> real \<Rightarrow> real \<Rightarrow> real \<Rightarrow> real \<Rightarrow> FrameRect" where
  "calculateBorderPosition position cw ch cs bt io =
    (let borderStart = cs + io
     in case position of
          edge_top \<Rightarrow> \<lparr>x = borderStart, y = io, width = cw - 2 * borderStart, height = bt\<rparr>
        | edge_bottom \<Rightarrow>
            \<lparr>x = borderStart, y = ch - bt - io, width = cw - 2 * borderStart, height = bt\<rparr>
        | edge_left \<Rightarrow> \<lparr>x = io, y = borderStart, width = bt, height = ch - 2 * borderStart\<rparr>
        | edge_right \<Rightarrow>
            \<lparr>x = cw - bt - io, y = borderStart, width = bt, height = ch - 2 * borderStart\<rparr>)"

text \<open>
  The asset loader (assetLoader.ts). The file system is the parameter \<open>fileExists\<close>,
  which does not change during a call; the cache only memoises loaded files, and a file
  that exists with a supported extension is taken to hold a valid image. A path that is
  \<open>undefined\<close>, empty or blank does not exist. The format is read off the lower-cased
  extension.
\<close>

definition isBlankChar :: "char \<Rightarrow> bool" where
  "isBlankChar c = (c \<in> set [CHR '' '', CHR 0x09, CHR 0x0A, CHR 0x0B, CHR 0x0C, CHR 0x0D])"

definition validateAssetExists :: "(string \<Rightarrow> bool) \<Rightarrow> string \<Rightarrow> bool" where
  "validateAssetExists fileExists assetPath =
    (if assetPath = [] \<or> list_all isBlankChar assetPath then False else fileExists assetPath)"

definition toLowerCase :: "string \<Rightarrow> string" where
  "toLowerCase s =
    map (\<lambda>c. if (65 :: nat) \<le> of_char c \<and> of_char c \<le> (90 :: nat)
             then char_of (of_char c + (32 :: nat)) else c) s"

definition basename :: "string \<Rightarrow> string" where
  "basename p = rev (takeWhile (\<lambda>c. c \<noteq> CHR ''/'') (rev p))"

text \<open>
  \<open>path.extname\<close>: the part of the last path segment from its last dot on; empty when
  the segment has no dot or only a leading one.
\<close>

definition extname :: "string \<Rightarrow> string" where
  "extname p =
    (let base = basename p;
         afterDot = takeWhile (\<lambda>c. c \<noteq> CHR ''.'') (rev base)
     in if CHR ''.'' \<notin> set base \<or> length afterDot + 1 = length base then []
        else CHR ''.'' # rev afterDot)"

definition getAssetFormat :: "string \<Rightarrow> string" where
  "getAssetFormat assetPath =
    (let ext = toLowerCase (extname assetPath)
     in if ext = ''.svg'' then ''svg''
        else if ext = ''.png'' then ''png''
        else ''unknown'')"

definition loadAsset :: "(string \<Rightarrow> bool) \<Rightarrow> string \<Rightarrow> Error + Image" where
  "loadAsset fileExists assetPath =
    (if \<not> validateAssetExists fileExists assetPath then Inl (AssetNotFound assetPath)
     else if getAssetFormat assetPath = ''unknown'' then Inl (UnsupportedAssetFormat assetPath)
     else Inr (Asset assetPath))"

definition renderCornerOrnament ::
  "(string \<Rightarrow> bool) \<Rightarrow> FramePresetConfig \<Rightarrow> CornerPosition \<Rightarrow> real \<Rightarrow> Error + Image" where
  "renderCornerOrnament fileExists preset position scaleFactor =
    bindE (loadAsset fileExists (cornerAsset preset)) (\<lambda>cornerBuffer.
      let scaledSize = Math_round (cornerSize preset * scaleFactor);
          transform = CORNER_TRANSFORMS position;
          image = ResizeFill cornerBuffer scaledSize scaledSize
      in Inr (if fst transform \<and> snd transform then Rotate image 180
              else if fst transform then Flop image
              else if snd transform then Flip image
              else image))"

definition renderBorderStrip ::
  "(string \<Rightarrow> bool) \<Rightarrow> FramePresetConfig \<Rightarrow> BorderPosition \<Rightarrow> real \<Rightarrow> real \<Rightarrow> Error + Image"
  where
  "renderBorderStrip fileExists preset position len scaleFactor =
    bindE (loadAsset fileExists (borderAsset preset)) (\<lambda>borderBuffer.
      let scaledThickness = Math_round (fp_borderThickness preset * scaleFactor);
          isVertical = (position = edge_left \<or> position = edge_right)
      in Inr (if isVertical then Rotate (ResizeFill borderBuffer len scaledThickness) 90
              else ResizeFill borderBuffer len scaledThickness))"

definition validatePresetAssets :: "(string \<Rightarrow> bool) \<Rightarrow> FramePresetConfig \<Rightarrow> Error + unit" where
  "validatePresetAssets fileExists preset =
    (if \<not> validateAssetExists fileExists (cornerAsset preset)
       then Inl (AssetNotFound (cornerAsset preset))
     else if \<not> validateAssetExists fileExists (borderAsset preset)
       then Inl (AssetNotFound (borderAsset preset))
     else Inr ())"

text \<open>
  The two loops of \<open>renderFrame\<close>. One step of the corner loop yields the overlay of a
  corner; one step of the edge loop yields the placement rectangle of the strip together
  with the rendered strip, or nothing when the strip's length is not positive.
\<close>

definition renderFrame_corner ::
  "(string \<Rightarrow> bool) \<Rightarrow> FramePresetConfig \<Rightarrow> real \<Rightarrow> real \<Rightarrow> real \<Rightarrow> real \<Rightarrow> real \<Rightarrow> CornerPosition
     \<Rightarrow> Error + (Image \<times> real \<times> real)" where
  "renderFrame_corner fileExists preset scaleFactor cw ch cs effectiveInsetOffset position =
    bindE (renderCornerOrnament fileExists preset position scaleFactor) (\<lambda>cornerBuffer.
      let cornerPos = calculateCornerPosition position cw ch cs effectiveInsetOffset
      in Inr (cornerBuffer, Math_round (fst cornerPos), Math_round (snd cornerPos)))"

definition renderFrame_border ::
  "(string \<Rightarrow> bool) \<Rightarrow> FramePresetConfig \<Rightarrow> real \<Rightarrow> real \<Rightarrow> real \<Rightarrow> real \<Rightarrow> real \<Rightarrow> real
     \<Rightarrow> BorderPosition \<Rightarrow> Error + (FrameRect \<times> Image) option" where
  "renderFrame_border fileExists preset scaleFactor cw ch cs bt effectiveInsetOffset position =
    (let borderDims = calculateBorderPosition position cw ch cs (Math_round (bt * scaleFactor))
                        effectiveInsetOffset;
         borderLength = (if position = edge_top \<or> position = edge_bottom then width borderDims
                         else height borderDims)
     in if borderLength > 0
        then bindE (renderBorderStrip fileExists preset position borderLength scaleFactor)
               (\<lambda>borderBuffer. Inr (Some (borderDims, borderBuffer)))
        else Inr None)"

definition stripOverlay :: "FrameRect \<times> Image \<Rightarrow> Image \<times> real \<times> real" where
  "stripOverlay s = (snd s, Math_round (x (fst s)), Math_round (y (fst s)))"

definition renderFrame :: "(string \<Rightarrow> bool) \<Rightarrow> Image \<Rightarrow> FrameRenderOptions \<Rightarrow> Error + Image" where
  "renderFrame fileExists cardBuffer options =
    (case lookupKey FRAME_PRESETS (presetId options) of
       Undefined \<Rightarrow> Inl (InvalidPreset (presetId options))
     | found \<Rightarrow>
        if \<not> isDecorativePreset (presetId options) then Inr cardBuffer
        else (case found of
           Own preset \<Rightarrow>
             bindE (validatePresetAssets fileExists preset) (\<lambda>_.
               let scaleFactor = getScaleFactorForLayout (layoutVariant options);
                   insetOffset' = (case insetOffset options of
                                     None \<Rightarrow> fp_insetOffset preset | Some v \<Rightarrow> v);
                   borderThickness' = (case borderThickness options of
                                         None \<Rightarrow> fp_borderThickness preset | Some v \<Rightarrow> v);
                   cs = Math_round (cornerSize preset * scaleFactor);
                   effectiveInsetOffset = max 0 (min 20 insetOffset')
               in bindE (mapE (renderFrame_corner fileExists preset scaleFactor
                                 (cardWidth options) (cardHeight options) cs effectiveInsetOffset)
                           ALL_CORNERS) (\<lambda>corners.
                  bindE (mapE (renderFrame_border fileExists preset scaleFactor
                                 (cardWidth options) (cardHeight options) cs borderThickness'
                                 effectiveInsetOffset)
                           ALL_BORDERS) (\<lambda>strips.
                  sharpComposite cardBuffer
                    (corners @ map stripOverlay (List.map_filter (\<lambda>s. s) strips)))))
         | _ \<Rightarrow> Inl (AssetNotFound ''undefined'')))"

section \<open>Text layout (cardComposer.ts)\<close>

text \<open>
  The line width in characters is a quotient, and a quotient of JavaScript numbers may
  be infinite or \<open>NaN\<close> (a font size of 0). \<open>jsnum\<close> adds these values to the
  finite numbers; signed zeros are not distinguished.
\<close>

datatype jsnum = Finite real | PosInfinity | NegInfinity | NaN

fun jsDiv :: "real \<Rightarrow> real \<Rightarrow> jsnum" where
  "jsDiv a b =
    (if b = 0 then (if a > 0 then PosInfinity else if a < 0 then NegInfinity else NaN)
     else Finite (a / b))"

fun jsFloor :: "jsnum \<Rightarrow> jsnum" where
  "jsFloor (Finite q) = Finite (of_int \<lfloor>q\<rfloor>)"
| "jsFloor v = v"

fun jsCeil :: "jsnum \<Rightarrow> jsnum" where
  "jsCeil (Finite q) = Finite (of_int \<lceil>q\<rceil>)"
| "jsCeil v = v"

fun jsLe :: "jsnum \<Rightarrow> jsnum \<Rightarrow> bool" where
  "jsLe (Finite a) (Finite b) = (a \<le> b)"
| "jsLe NaN _ = False"
| "jsLe _ NaN = False"
| "jsLe NegInfinity _ = True"
| "jsLe _ PosInfinity = True"
| "jsLe _ _ = False"

fun jsAdd :: "jsnum \<Rightarrow> jsnum \<Rightarrow> jsnum" where
  "jsAdd (Finite a) (Finite b) = Finite (a + b)"
| "jsAdd NaN _ = NaN"
| "jsAdd _ NaN = NaN"
| "jsAdd PosInfinity NegInfinity = NaN"
| "jsAdd NegInfinity PosInfinity = NaN"
| "jsAdd PosInfinity _ = PosInfinity"
| "jsAdd NegInfinity _ = NegInfinity"
| "jsAdd _ v = v"

fun jsMulBy :: "jsnum \<Rightarrow> real \<Rightarrow> jsnum" where
  "jsMulBy (Finite a) r = Finite (a * r)"
| "jsMulBy NaN r = NaN"
| "jsMulBy PosInfinity r = (if r > 0 then PosInfinity else if r < 0 then NegInfinity else NaN)"
| "jsMulBy NegInfinity r = (if r > 0 then NegInfinity else if r < 0 then PosInfinity else NaN)"

text \<open>The quotient \<open>n / m\<close> of a finite \<open>n\<close> by any number.\<close>

fun jsDivBy :: "real \<Rightarrow> jsnum \<Rightarrow> jsnum" where
  "jsDivBy n (Finite m) = jsDiv n m"
| "jsDivBy n NaN = NaN"
| "jsDivBy n _ = Finite 0"

text \<open>
  \<open>substring\<close> clamps an index to the length of the string, with \<open>NaN\<close> and negative
  values read as 0.
\<close>

fun toIndex :: "jsnum \<Rightarrow> nat \<Rightarrow> nat" where
  "toIndex (Finite q) len = min (nat \<lfloor>q\<rfloor>) len"
| "toIndex PosInfinity len = len"
| "toIndex _ len = 0"

definition lengthLe :: "'a list \<Rightarrow> jsnum \<Rightarrow> bool" where
  "lengthLe s m = jsLe (Finite (of_nat (length s))) m"

text \<open>\<open>text.split('\n')\<close>: the pieces between line feeds; never an empty array.\<close>

fun splitOn :: "'a \<Rightarrow> 'a list \<Rightarrow> 'a list list" where
  "splitOn c [] = [[]]"
| "splitOn c (a # as) =
    (if a = c then [] # splitOn c as
     else (case splitOn c as of [] \<Rightarrow> [[a]] | p # ps \<Rightarrow> (a # p) # ps))"

definition LINE_FEED :: "16 word" where
  "LINE_FEED = 0x0A"

definition maxCharsPerLine :: "real \<Rightarrow> real \<Rightarrow> jsnum" where
  "maxCharsPerLine maxWidth fontSize =
    (let avgCharWidth = fontSize * (8 / 10)
     in jsFloor (jsDiv (maxWidth - 40) avgCharWidth))"

definition calculateTextLines :: "jsstring \<Rightarrow> real \<Rightarrow> real \<Rightarrow> jsnum" where
  "calculateTextLines text maxWidth fontSize =
    (let m = maxCharsPerLine maxWidth fontSize;
         paragraphs = splitOn LINE_FEED text
     in fold (\<lambda>paragraph totalLines.
                if length paragraph = 0 then jsAdd totalLines (Finite 1)
                else jsAdd totalLines (jsCeil (jsDivBy (of_nat (length paragraph)) m)))
          paragraphs (Finite 0))"

text \<open>
  The inner \<open>while\<close> loop of \<open>wrapText\<close>. It need not terminate (with a line width
  of 0 the remainder never shrinks), so it is a partial function: \<open>None\<close> is a run
  that never returns.
\<close>

partial_function (option) wrapText_loop ::
  "jsnum \<Rightarrow> 'a list \<Rightarrow> 'a list list \<Rightarrow> 'a list list option" where
  "wrapText_loop m remaining lines =
    (if length remaining > 0
     then (if lengthLe remaining m then Some (lines @ [remaining])
           else wrapText_loop m (drop (toIndex m (length remaining)) remaining)
                  (lines @ [take (toIndex m (length remaining)) remaining]))
     else Some lines)"

fun wrapText_paragraphs :: "jsnum \<Rightarrow> 'a list list \<Rightarrow> 'a list list \<Rightarrow> 'a list list option" where
  "wrapText_paragraphs m [] lines = Some lines"
| "wrapText_paragraphs m (paragraph # ps) lines =
    (if lengthLe paragraph m then wrapText_paragraphs m ps (lines @ [paragraph])
     else (case wrapText_loop m paragraph lines of
             None \<Rightarrow> None
           | Some lines' \<Rightarrow> wrapText_paragraphs m ps lines'))"

definition wrapText :: "jsstring \<Rightarrow> real \<Rightarrow> real \<Rightarrow> jsstring list option" where
  "wrapText text maxWidth fontSize =
    wrapText_paragraphs (maxCharsPerLine maxWidth fontSize) (splitOn LINE_FEED text) []"

definition TITLE_FONT_SIZE :: int where "TITLE_FONT_SIZE = 48"
definition CONTENT_FONT_SIZE :: int where "CONTENT_FONT_SIZE = 36"
definition MIN_FONT_SIZE :: int where "MIN_FONT_SIZE = 24"
definition TITLE_LINE_HEIGHT :: real where "TITLE_LINE_HEIGHT = 13 / 10"
definition CONTENT_LINE_HEIGHT :: real where "CONTENT_LINE_HEIGHT = 14 / 10"

definition getFontSizeForBox :: "string \<Rightarrow> int" where
  "getFontSizeForBox i = (if i = ''title'' then TITLE_FONT_SIZE else CONTENT_FONT_SIZE)"

function calculateFontSize_loop :: "jsstring \<Rightarrow> real \<Rightarrow> real \<Rightarrow> real \<Rightarrow> int \<Rightarrow> int" where
  "calculateFontSize_loop text boxWidth boxHeight lineHeight fontSize =
    (if fontSize > MIN_FONT_SIZE
     then (let lines = calculateTextLines text boxWidth (of_int fontSize);
               totalTextHeight = jsMulBy (jsMulBy lines (of_int fontSize)) lineHeight;
               availableHeight = boxHeight - 20
           in if jsLe totalTextHeight (Finite availableHeight) then fontSize
              else calculateFontSize_loop text boxWidth boxHeight lineHeight (fontSize - 2))
     else fontSize)"
  by pat_completeness auto
termination
  by (relation "measure (\<lambda>(t, w, h, l, fs). nat (fs - MIN_FONT_SIZE))") auto

definition calculateFontSize :: "jsstring \<Rightarrow> string \<Rightarrow> real \<Rightarrow> real \<Rightarrow> int" where
  "calculateFontSize text i boxWidth boxHeight =
    (let baseFontSize = getFontSizeForBox i;
         lineHeight = (if i = ''title'' then TITLE_LINE_HEIGHT else CONTENT_LINE_HEIGHT)
     in max (calculateFontSize_loop text boxWidth boxHeight lineHeight baseFontSize)
          MIN_FONT_SIZE)"

definition createTextSvg :: "jsstring \<Rightarrow> real \<Rightarrow> real \<Rightarrow> real \<Rightarrow> TextSvg option" where
  "createTextSvg text w h fontSize =
    (case wrapText text w fontSize of
       None \<Rightarrow> None
     | Some lines \<Rightarrow>
         Some \<lparr>textLines = lines, textWidth = w, textHeight = h, textFontSize = fontSize\<rparr>)"

section \<open>Layout validation and the card compositor (cardComposer.ts)\<close>

datatype LayoutIssue =
    ArtworkOutsideCanvas
  | TitleOutsideCanvas
  | ContentOutsideCanvas nat
  | ArtworkTitleGap
  | TitleContentGap nat
  | ContentContentGap nat nat

record ValidationResult =
  valid :: bool
  errors :: "LayoutIssue list"

definition validateLayoutBorders :: "LayoutConfig \<Rightarrow> OuterGlowConfig option \<Rightarrow> ValidationResult"
  where
  "validateLayoutBorders layout glowConfig =
    (let cw = cwidth (canvas layout);
         ch = cheight (canvas layout);
         boxes = contentBoxes layout;
         artworkBorderDims = getArtworkBorderDimensions glowConfig;
         textBoxBorderDims = getTextBoxBorderDimensions glowConfig;
         e1 = (if \<not> validateBorderWithinCanvas (artworkFrame layout) artworkBorderDims cw ch
               then [ArtworkOutsideCanvas] else []);
         e2 = (if \<not> validateBorderWithinCanvas (titleBox layout) textBoxBorderDims cw ch
               then [TitleOutsideCanvas] else []);
         e3 = concat (map (\<lambda>i.
                if \<not> validateBorderWithinCanvas (boxes ! i) textBoxBorderDims cw ch
                then [ContentOutsideCanvas (i + 1)] else []) [0 ..< length boxes]);
         e4 = (if \<not> validateBorderGap (artworkFrame layout) (titleBox layout) artworkBorderDims
                       textBoxBorderDims MIN_BORDER_GAP
               then [ArtworkTitleGap] else []);
         e5 = concat (map (\<lambda>i.
                if \<not> validateBorderGap (titleBox layout) (boxes ! i) textBoxBorderDims
                       textBoxBorderDims MIN_BORDER_GAP
                then [TitleContentGap (i + 1)] else []) [0 ..< length boxes]);
         e6 = concat (map (\<lambda>i. concat (map (\<lambda>j.
                if \<not> validateBorderGap (boxes ! i) (boxes ! j) textBoxBorderDims
                       textBoxBorderDims MIN_BORDER_GAP
                then [ContentContentGap (i + 1) (j + 1)] else []) [i + 1 ..< length boxes]))
                [0 ..< length boxes]);
         errs = e1 @ e2 @ e3 @ e4 @ e5 @ e6
     in \<lparr>valid = (length errs = 0), errors = errs\<rparr>)"

record TextBoxConfig =
  tb_id :: string
  tb_text :: jsstring

datatype CropAnchor = crop_top | crop_center | crop_bottom

datatype BorderPreset = gold | silver | bronze

record ComposeCardOptions =
  backgroundBuffer :: InputBuffer
  artworkBuffer :: InputBuffer
  textBoxes :: "TextBoxConfig list"
  textBoxColorId :: "string option"
  layoutMode :: "LayoutMode option"
  cardLayoutVariant :: "LayoutVariant option"
  borderPreset :: "BorderPreset option"
  textureType :: "TextureType option"
  blurIntensity :: "string option"
  glowIntensity :: "GlowIntensity option"
  scalePreset :: "ScalePreset option"
  cropAnchor :: "CropAnchor option"

definition getDefaultCropAnchor :: "LayoutMode \<Rightarrow> CropAnchor" where
  "getDefaultCropAnchor m = (if m = portrait then crop_top else crop_center)"

definition getCropPosition :: "CropAnchor \<Rightarrow> string" where
  "getCropPosition anchor =
    (case anchor of crop_top \<Rightarrow> ''north'' | crop_center \<Rightarrow> ''centre'' | crop_bottom \<Rightarrow> ''south'')"

definition resizeAndCropArtwork ::
  "InputBuffer \<Rightarrow> real \<Rightarrow> real \<Rightarrow> LayoutMode \<Rightarrow> CropAnchor \<Rightarrow> Error + Image" where
  "resizeAndCropArtwork buf targetWidth targetHeight m anchor =
    (if imageSize buf = None then Inl UndecodableInput
     else Inr (ResizeCover (Input buf) targetWidth targetHeight (getCropPosition anchor)))"

text \<open>\<open>a || b\<close> on an optional string: an absent or empty \<open>a\<close> gives \<open>b\<close>.\<close>

definition orDefault :: "string option \<Rightarrow> string \<Rightarrow> string" where
  "orDefault a b = (case a of None \<Rightarrow> b | Some s \<Rightarrow> if s = [] then b else s)"

definition DEFAULT_TEXTURE_TYPE :: TextureType where
  "DEFAULT_TEXTURE_TYPE = matte_paper"

definition getTextureConfig :: "TextureType \<Rightarrow> TextureType" where
  "getTextureConfig t = t"

definition createTextBoxBackgroundSvg ::
  "real \<Rightarrow> real \<Rightarrow> string list \<Rightarrow> TextureType \<Rightarrow> BlurConfig Lookup \<Rightarrow> PanelSvg" where
  "createTextBoxBackgroundSvg w h gradientColors texture blurCfg =
    \<lparr>panelWidth = w, panelHeight = h,
     panelGradient = (if length gradientColors \<ge> 3 then gradientColors
                      else snd (hd PREMIUM_TEXTBOX_COLORS)),
     panelTexture = texture, panelBlur = blurCfg\<rparr>"

fun showNat :: "nat \<Rightarrow> string" where
  "showNat n =
    (if n < 10 then [char_of (48 + n)] else showNat (n div 10) @ [char_of (48 + n mod 10)])"

declare showNat.simps [simp del]

text \<open>
  The panel loop of \<open>renderTextBoxBackgrounds\<close>: for the box at index \<open>i\<close>, the
  background is rasterised and pushed at the box's position, then the border is
  generated and pushed at the border's position clamped to the canvas origin. A failed
  rasterisation ends the loop with its error.
\<close>

definition panelLayers :: "string list \<Rightarrow> TextureType \<Rightarrow> BlurConfig Lookup \<Rightarrow> OuterGlowConfig option
    \<Rightarrow> nat \<times> TextBoxRect \<Rightarrow> Error + (Image \<times> real \<times> real) list" where
  "panelLayers gradientColors texture blurCfg glowConfig ib =
    (let layoutBox = snd ib;
         backgroundSvg = createTextBoxBackgroundSvg (width layoutBox) (height layoutBox)
                           gradientColors texture blurCfg
     in bindE (sharpSvg (panelWidth backgroundSvg) (panelHeight backgroundSvg) backgroundSvg)
          (\<lambda>backgroundBuffer.
        bindE (renderDoubleLineTextBoxBorder layoutBox None
                 (''textbox'' @ showNat (fst ib)) glowConfig) (\<lambda>border.
          Inr [(PanelRaster backgroundBuffer, x layoutBox, y layoutBox),
               (BorderRaster (buffer border), max 0 (posX border), max 0 (posY border))])))"

definition renderTextBoxBackgrounds ::
  "Image \<Rightarrow> TextBoxConfig list \<Rightarrow> string option \<Rightarrow> LayoutConfig option \<Rightarrow> BorderPreset option
     \<Rightarrow> TextureType option \<Rightarrow> string option \<Rightarrow> OuterGlowConfig option \<Rightarrow> Error + Image" where
  "renderTextBoxBackgrounds baseBuffer tbs colorId layout preset texType blurInt glowConfig =
    bindE (getTextBoxColorGradient (orDefault colorId ''obsidian'')) (\<lambda>gradientColors.
      let texture = getTextureConfig
                      (case texType of None \<Rightarrow> DEFAULT_TEXTURE_TYPE | Some t \<Rightarrow> t)
      in bindE (getBlurConfig (orDefault blurInt DEFAULT_BLUR_INTENSITY)) (\<lambda>blurCfg.
           let currentLayout = (case layout of None \<Rightarrow> LANDSCAPE_LAYOUT | Some l \<Rightarrow> l);
               allTextBoxes = getAllTextBoxes currentLayout
           in bindE (mapE (panelLayers gradientColors texture blurCfg glowConfig)
                       (enumerate 0 allTextBoxes)) (\<lambda>pushed.
                sharpComposite baseBuffer (concat pushed))))"

text \<open>
  \<open>text.trim()\<close> is empty exactly when every code unit of \<open>text\<close> is white space or a
  line terminator.
\<close>

definition isJsWhiteSpace :: "16 word \<Rightarrow> bool" where
  "isJsWhiteSpace c =
    (c \<in> set [0x09, 0x0A, 0x0B, 0x0C, 0x0D, 0x20, 0xA0, 0x1680, 0x2028, 0x2029, 0x202F,
               0x205F, 0x3000, 0xFEFF]
     \<or> (0x2000 \<le> c \<and> c \<le> 0x200A))"

definition trimIsEmpty :: "jsstring \<Rightarrow> bool" where
  "trimIsEmpty text = list_all isJsWhiteSpace text"

definition textOfBox :: "TextBoxConfig list \<Rightarrow> TextBoxRect \<Rightarrow> jsstring" where
  "textOfBox tbs layoutBox =
    (case find (\<lambda>tb. tb_id tb = boxId layoutBox) tbs of
       None \<Rightarrow> []
     | Some textConfig \<Rightarrow> tb_text textConfig)"

text \<open>
  The loop of \<open>renderTextContent\<close>. A box whose text trims to nothing is skipped;
  otherwise its glyph layer is rasterised and appended. \<open>None\<close> is a run in which line
  wrapping does not return.
\<close>

fun renderTextContent_loop ::
  "TextBoxConfig list \<Rightarrow> TextBoxRect list \<Rightarrow> (Image \<times> real \<times> real) list
     \<Rightarrow> (Error + (Image \<times> real \<times> real) list) option" where
  "renderTextContent_loop tbs [] composites = Some (Inr composites)"
| "renderTextContent_loop tbs (layoutBox # rest) composites =
    (let text = textOfBox tbs layoutBox
     in if trimIsEmpty text then renderTextContent_loop tbs rest composites
        else
          (let fontSize = calculateFontSize text (boxId layoutBox) (width layoutBox)
                            (height layoutBox)
           in case createTextSvg text (width layoutBox) (height layoutBox) (of_int fontSize) of
                None \<Rightarrow> None
              | Some textSvg \<Rightarrow>
                  (case sharpSvg (textWidth textSvg) (textHeight textSvg) textSvg of
                     Inl e \<Rightarrow> Some (Inl e)
                   | Inr textBuffer \<Rightarrow>
                       renderTextContent_loop tbs rest
                         (composites @ [(TextRaster textBuffer, x layoutBox, y layoutBox)]))))"

definition renderTextContent ::
  "Image \<Rightarrow> TextBoxConfig list \<Rightarrow> LayoutConfig option \<Rightarrow> (Error + Image) option" where
  "renderTextContent baseBuffer tbs layout =
    (let currentLayout = (case layout of None \<Rightarrow> LANDSCAPE_LAYOUT | Some l \<Rightarrow> l);
         allTextBoxes = getAllTextBoxes currentLayout
     in case renderTextContent_loop tbs allTextBoxes [] of
          None \<Rightarrow> None
        | Some (Inl e) \<Rightarrow> Some (Inl e)
        | Some (Inr composites) \<Rightarrow>
            Some (if length composites = 0 then Inr baseBuffer
                  else sharpComposite baseBuffer composites))"

text \<open>
  \<open>composeCard\<close>. Its result is the list of warnings written with \<open>console.warn\<close>
  and the outcome: an error, the composed image, or \<open>None\<close> when the call does not
  return. The validation function is a parameter of \<open>composeCard_core\<close>, and
  \<open>composeCard\<close> is the instance the code has.
\<close>

definition composeCard_core ::
  "(LayoutConfig \<Rightarrow> OuterGlowConfig option \<Rightarrow> ValidationResult) \<Rightarrow> ComposeCardOptions
     \<Rightarrow> LayoutIssue list list \<times> (Error + Image) option" where
  "composeCard_core validate options =
    (let layoutMode' = (case layoutMode options of None \<Rightarrow> landscape | Some m \<Rightarrow> m);
         layout0 = (case cardLayoutVariant options of
                      Some v \<Rightarrow> getLayoutConfigByVariant v
                    | None \<Rightarrow> getLayoutConfig layoutMode');
         effectiveLayoutMode = (case cardLayoutVariant options of
                                  Some v \<Rightarrow> getLayoutModeFromVariant v
                                | None \<Rightarrow> layoutMode');
         effectiveCropAnchor = (case cropAnchor options of
                                  Some a \<Rightarrow> a
                                | None \<Rightarrow> getDefaultCropAnchor effectiveLayoutMode);
         layout = composeCard_scaledLayout layout0 (scalePreset options);
         glowConfig = map_option getGlowConfig (glowIntensity options);
         layoutValidation = validate layout glowConfig;
         warnings = (if \<not> valid layoutValidation then [errors layoutValidation] else [])
     in (warnings,
         if byteLength (artworkBuffer options) = 0 then Some (Inl EmptyArtwork)
         else if imageSize (backgroundBuffer options) = None then Some (Inl UndecodableInput)
         else
           (let resultBuffer0 = ResizeCover (Input (backgroundBuffer options))
                                  (cwidth (canvas layout)) (cheight (canvas layout)) ''center'';
                frame = artworkFrame layout
            in case imageSize (artworkBuffer options) of
                 None \<Rightarrow> Some (Inl UndecodableInput)
               | Some (w, h) \<Rightarrow>
                   if w = 0 \<or> h = 0 then Some (Inl ArtworkSizeUnreadable)
                   else
                     (case bindE (resizeAndCropArtwork (artworkBuffer options) (width frame)
                                    (height frame) effectiveLayoutMode effectiveCropAnchor)
                             (\<lambda>resizedArtwork.
                           bindE (sharpComposite resultBuffer0
                                    [(resizedArtwork, x frame, y frame)]) (\<lambda>resultBuffer1.
                           bindE (renderDoubleLineArtworkBorder frame None glowConfig)
                             (\<lambda>artworkBorder.
                           bindE (sharpComposite resultBuffer1
                                    [(BorderRaster (buffer artworkBorder),
                                      max 0 (posX artworkBorder), max 0 (posY artworkBorder))])
                             (\<lambda>resultBuffer2.
                                renderTextBoxBackgrounds resultBuffer2 (textBoxes options)
                                  (textBoxColorId options) (Some layout) (borderPreset options)
                                  (textureType options) (blurIntensity options) glowConfig)))) of
                        Inl e \<Rightarrow> Some (Inl e)
                      | Inr resultBuffer3 \<Rightarrow>
                          renderTextContent resultBuffer3 (textBoxes options) (Some layout)))))"

definition composeCard :: "ComposeCardOptions \<Rightarrow> LayoutIssue list list \<times> (Error + Image) option"
  where
  "composeCard options = composeCard_core validateLayoutBorders options"

declare wrapText_loop.simps [code]

declare calculateFontSize_loop.simps [simp del]

section \<open>Notions used to state the properties\<close>

text \<open>
  The six rectangles of a layout, the widths a variant has under a preset, and
  containment of a rectangle in the canvas.
\<close>

definition allRects :: "LayoutConfig \<Rightarrow> FrameRect list" where
  "allRects layout = artworkFrame layout # map FrameRect.truncate (getAllTextBoxes layout)"

definition scaledWidths :: "LayoutVariant \<Rightarrow> ScalePreset \<Rightarrow> real list" where
  "scaledWidths v p = map width (allRects (applyScalePreset (LAYOUT_VARIANTS v) p))"

definition insideCanvas :: "Canvas \<Rightarrow> 'a FrameRect_scheme \<Rightarrow> bool" where
  "insideCanvas c r =
    (0 \<le> x r \<and> 0 \<le> y r \<and> x r + width r \<le> cwidth c \<and> y r + height r \<le> cheight c)"

text \<open>
  The layout and the glow configuration \<open>composeCard\<close> works with, and the overlays
  of an image in the order they were composited.
\<close>

definition composeCard_layout :: "ComposeCardOptions \<Rightarrow> LayoutConfig" where
  "composeCard_layout options =
    composeCard_scaledLayout
      (case cardLayoutVariant options of
         Some v \<Rightarrow> getLayoutConfigByVariant v
       | None \<Rightarrow> getLayoutConfig (case layoutMode options of None \<Rightarrow> landscape | Some m \<Rightarrow> m))
      (scalePreset options)"

definition composeCard_glow :: "ComposeCardOptions \<Rightarrow> OuterGlowConfig option" where
  "composeCard_glow options = map_option getGlowConfig (glowIntensity options)"

fun layers :: "Image \<Rightarrow> (Image \<times> real \<times> real) list" where
  "layers (Composite base overlays) = layers base @ overlays"
| "layers _ = []"

text \<open>
  The layers a composed card is expected to have, written out. The illustration layer:
  the illustration buffer, resized to cover the frame, at the frame's position. The
  border layer of a rectangle, for a ring of width \<open>ring\<close>: a raster larger than the
  rectangle by ring plus glow padding on every side, placed that far up and left of the
  rectangle, but not beyond the canvas origin. The background layer of a panel: a raster
  of the panel's size at the panel's position. A glyph layer of a panel: a text raster of
  the panel's size at the panel's position, set in a font size between 24 and 48. A
  panel has text when the first text entry with its id has a text that is not all white
  space.
\<close>

definition illustrationLayer ::
  "InputBuffer \<Rightarrow> FrameRect \<Rightarrow> string \<Rightarrow> Image \<times> real \<times> real" where
  "illustrationLayer artwork frame cropPosition =
    (ResizeCover (Input artwork) (width frame) (height frame) cropPosition, x frame, y frame)"

definition borderLayer ::
  "'a FrameRect_scheme \<Rightarrow> DoubleLineBorderStyle \<Rightarrow> real \<Rightarrow> real option \<Rightarrow> string
     \<Rightarrow> OuterGlowConfig option \<Rightarrow> Image \<times> real \<times> real" where
  "borderLayer r style ring radius uniqueId glowConfig =
    (let pad = ring + glowPaddingOf glowConfig;
         w = width r + 2 * pad;
         h = height r + 2 * pad
     in (BorderRaster
           \<lparr>pngWidth = w, pngHeight = h,
            pngSource = \<lparr>svgWidth = w, svgHeight = h, svgStyle = style, svgRadius = radius,
                         svgId = uniqueId,
                         svgGlow = (case glowConfig of None \<Rightarrow> DEFAULT_GLOW_CONFIG
                                    | Some g \<Rightarrow> g)\<rparr>\<rparr>,
         max 0 (x r - pad), max 0 (y r - pad)))"

definition backgroundLayer ::
  "TextBoxRect \<Rightarrow> string list \<Rightarrow> TextureType \<Rightarrow> BlurConfig Lookup \<Rightarrow> Image \<times> real \<times> real"
  where
  "backgroundLayer b gradient texture blurCfg =
    (PanelRaster
       \<lparr>pngWidth = width b, pngHeight = height b,
        pngSource = \<lparr>panelWidth = width b, panelHeight = height b, panelGradient = gradient,
                     panelTexture = texture, panelBlur = blurCfg\<rparr>\<rparr>,
     x b, y b)"

definition isGlyphLayer :: "TextBoxRect \<Rightarrow> Image \<times> real \<times> real \<Rightarrow> bool" where
  "isGlyphLayer b layer =
    (case fst layer of
       TextRaster textBuffer \<Rightarrow>
         pngWidth textBuffer = width b \<and> pngHeight textBuffer = height b
         \<and> textWidth (pngSource textBuffer) = width b
         \<and> textHeight (pngSource textBuffer) = height b
         \<and> 24 \<le> textFontSize (pngSource textBuffer)
         \<and> textFontSize (pngSource textBuffer) \<le> 48
         \<and> snd layer = (x b, y b)
     | _ \<Rightarrow> False)"

definition hasText :: "TextBoxConfig list \<Rightarrow> TextBoxRect \<Rightarrow> bool" where
  "hasText tbs b =
    (case find (\<lambda>tb. tb_id tb = boxId b) tbs of
       None \<Rightarrow> False
     | Some tb \<Rightarrow> \<not> list_all isJsWhiteSpace (tb_text tb))"

text \<open>Sample inputs.\<close>

definition sampleBuffer :: "real \<Rightarrow> real \<Rightarrow> InputBuffer" where
  "sampleBuffer w h = \<lparr>byteLength = 1, imageSize = Some (w, h)\<rparr>"

definition miniOptions :: ComposeCardOptions where
  "miniOptions =
    \<lparr>backgroundBuffer = sampleBuffer 1024 768, artworkBuffer = sampleBuffer 720 1280,
     textBoxes = [], textBoxColorId = None, layoutMode = None,
     cardLayoutVariant = Some landscape_square, borderPreset = None, textureType = None,
     blurIntensity = None, glowIntensity = None, scalePreset = Some mini, cropAnchor = None\<rparr>"

definition scenarioOptions :: ComposeCardOptions where
  "scenarioOptions =
    \<lparr>backgroundBuffer = sampleBuffer 1024 768, artworkBuffer = sampleBuffer 720 1280,
     textBoxes = [\<lparr>tb_id = ''title'', tb_text = [0x52C7, 0x8005]\<rparr>,
                  \<lparr>tb_id = ''content1'', tb_text = []\<rparr>,
                  \<lparr>tb_id = ''content3'', tb_text = [0x20, 0x0A]\<rparr>],
     textBoxColorId = Some ''obsidian'', layoutMode = None,
     cardLayoutVariant = Some landscape_square, borderPreset = Some gold,
     textureType = Some matte_paper, blurIntensity = Some ''medium'',
     glowIntensity = Some medium, scalePreset = Some standard, cropAnchor = None\<rparr>"

definition classicOverride :: FrameRenderOptions where
  "classicOverride = \<lparr>presetId = ''classic'', cardWidth = 1024, cardHeight = 768,
     layoutVariant = Some landscape_square, insetOffset = None, borderThickness = Some 10\<rparr>"

definition sampleCard :: Image where
  "sampleCard = Input \<lparr>byteLength = 1, imageSize = Some (1024, 768)\<rparr>"

definition mediumBlur :: BlurConfig where
  "mediumBlur = \<lparr>bc_id = ''medium'', bc_blur = 12, bc_opacity = 85 / 100\<rparr>"

definition obsidianGradient :: "string list" where
  "obsidianGradient =
    [''rgba(35, 35, 40, 0.92)'', ''rgba(20, 20, 25, 0.88)'', ''rgba(25, 25, 30, 0.92)'']"

section \<open>Standard scale\<close>

text \<open>
  C1. Applying the standard scale preset is a no-op: \<open>applyScaleFactor\<close> with factor 1
  (and so \<open>applyScalePreset\<close> with \<open>standard\<close>, and the scaling step of
  \<open>composeCard\<close>) returns the layout it was given, unchanged and not re-rounded, for
  every layout; in particular for the four catalogue variants.
\<close>

theorem standard_scale_is_noop:
  "applyScaleFactor layout 1 = layout
   \<and> applyScalePreset layout standard = layout
   \<and> composeCard_scaledLayout layout (Some standard) = layout
   \<and> applyScalePreset (LAYOUT_VARIANTS v) standard = LAYOUT_VARIANTS v"
  by (simp add: applyScaleFactor_def applyScalePreset_def getScaleConfig_def
      SCALE_PRESETS_def composeCard_scaledLayout_def)

section \<open>Border footprint\<close>

lemma Math_round_whole: "v \<in> \<int> \<Longrightarrow> Math_round v = v"
  by (auto simp: Math_round_def Ints_def)

lemma sharpSvg_result:
  "sharpSvg w h svg =
     (if Math_round w < 1 \<or> Math_round h < 1 then Inl BadSvgDimensions
      else Inr \<lparr>pngWidth = Math_round w, pngHeight = Math_round h, pngSource = svg\<rparr>)"
  by (simp add: sharpSvg_def Let_def)

lemma artwork_border_result:
  fixes frame :: "'a FrameRect_scheme"
  shows "renderDoubleLineArtworkBorder frame cs g =
     (let sa = mergeStyle ENHANCED_ARTWORK_BORDER cs;
          tw = width frame + 2 * ringWidth sa + 2 * glowPaddingOf g;
          th = height frame + 2 * ringWidth sa + 2 * glowPaddingOf g
      in if Math_round tw < 1 \<or> Math_round th < 1 then Inl BadSvgDimensions
         else Inr \<lparr>buffer = \<lparr>pngWidth = Math_round tw, pngHeight = Math_round th,
                             pngSource = \<lparr>svgWidth = tw, svgHeight = th, svgStyle = sa,
                                          svgRadius = None, svgId = ''artwork'',
                                          svgGlow = (case g of None \<Rightarrow> DEFAULT_GLOW_CONFIG
                                                     | Some c \<Rightarrow> c)\<rparr>\<rparr>,
                   posX = x frame - edgePadding sa g, posY = y frame - edgePadding sa g\<rparr>)"
  by (simp add: renderDoubleLineArtworkBorder_def createDoubleLineBorderSvg_def Let_def
      sharpSvg_result bindE_def glowPaddingOf_def ringWidth_def edgePadding_def mult.commute)

lemma textbox_border_result:
  fixes frame :: "'a FrameRect_scheme"
  shows "renderDoubleLineTextBoxBorder frame cs uid g =
     (let st = mergeStyle ENHANCED_TEXTBOX_BORDER cs;
          tw = width frame + 2 * ringWidth st + 2 * glowPaddingOf g;
          th = height frame + 2 * ringWidth st + 2 * glowPaddingOf g
      in if Math_round tw < 1 \<or> Math_round th < 1 then Inl BadSvgDimensions
         else Inr \<lparr>buffer = \<lparr>pngWidth = Math_round tw, pngHeight = Math_round th,
                             pngSource = \<lparr>svgWidth = tw, svgHeight = th, svgStyle = st,
                                          svgRadius = Some TEXT_BOX_BORDER_RADIUS, svgId = uid,
                                          svgGlow = (case g of None \<Rightarrow> DEFAULT_GLOW_CONFIG
                                                     | Some c \<Rightarrow> c)\<rparr>\<rparr>,
                   posX = x frame - edgePadding st g, posY = y frame - edgePadding st g\<rparr>)"
  by (simp add: renderDoubleLineTextBoxBorder_def createDoubleLineRoundedBorderSvg_def Let_def
      sharpSvg_result bindE_def glowPaddingOf_def ringWidth_def edgePadding_def mult.commute)




lemma default_rings:
  "ringWidth (mergeStyle ENHANCED_ARTWORK_BORDER None) = 10"
  "ringWidth (mergeStyle ENHANCED_TEXTBOX_BORDER None) = 8"
  by (simp_all add: ringWidth_def mergeStyle_def ENHANCED_ARTWORK_BORDER_def
      ENHANCED_TEXTBOX_BORDER_def)





section \<open>Gap validation\<close>

lemma validateBorderGap_char:
  fixes f1 :: "'a FrameRect_scheme" and f2 :: "'b FrameRect_scheme"
  assumes "0 \<le> width f1" "0 \<le> height f1" "0 \<le> width f2" "0 \<le> height f2"
    "0 \<le> calculateTotalBorderSpace b1" "0 \<le> calculateTotalBorderSpace b2"
  shows "validateBorderGap f1 f2 b1 b2 g =
    (if 0 < xSeparation f1 b1 f2 b2 \<and> 0 < ySeparation f1 b1 f2 b2 then True
     else if 0 < ySeparation f1 b1 f2 b2 then g \<le> ySeparation f1 b1 f2 b2
     else if 0 < xSeparation f1 b1 f2 b2 then g \<le> xSeparation f1 b1 f2 b2
     else False)"
  using assms unfolding validateBorderGap_def xSeparation_def ySeparation_def Let_def
  by (auto simp: min_def max_def abs_if)

lemma default_spaces:
  "calculateTotalBorderSpace (getArtworkBorderDimensions None) = 19"
  "calculateTotalBorderSpace (getTextBoxBorderDimensions None) = 17"
  by (simp_all add: calculateTotalBorderSpace_def getArtworkBorderDimensions_def
      getTextBoxBorderDimensions_def ENHANCED_ARTWORK_BORDER_def ENHANCED_TEXTBOX_BORDER_def
      DEFAULT_GLOW_CONFIG_def GLOW_PRESETS_def Math_ceil_def)

text \<open>
  C3, as the code has it. The claim lets two diagonally placed boxes pass "even with
  zero literal gap"; the code treats boxes that touch as overlapping on that axis, so
  two boxes that meet corner to corner overlap on both axes and fail.
\<close>

theorem diagonal_zero_gap_counterexample:
  "xSeparation (mkFrame 0 0 10 10) noBorder (mkFrame 10 10 10 10) noBorder = 0
   \<and> ySeparation (mkFrame 0 0 10 10) noBorder (mkFrame 10 10 10 10) noBorder = 0
   \<and> \<not> validateBorderGap (mkFrame 0 0 10 10) (mkFrame 10 10 10 10) noBorder noBorder 2
   \<and> xSeparation (mkFrame 0 0 10 10) (getTextBoxBorderDimensions None)
         (mkFrame 44 44 10 10) (getTextBoxBorderDimensions None) = 0
   \<and> ySeparation (mkFrame 0 0 10 10) (getTextBoxBorderDimensions None)
         (mkFrame 44 44 10 10) (getTextBoxBorderDimensions None) = 0
   \<and> \<not> validateBorderGap (mkFrame 0 0 10 10) (mkFrame 44 44 10 10)
         (getTextBoxBorderDimensions None) (getTextBoxBorderDimensions None) MIN_BORDER_GAP"
  by (simp add: validateBorderGap_def xSeparation_def ySeparation_def mkFrame_def noBorder_def
      default_spaces MIN_BORDER_GAP_def)
    (simp add: calculateTotalBorderSpace_def)

text \<open>
  C3, amended. For frames of non-negative size and borders of non-negative footprint,
  with the boxes expanded by their \<open>calculateTotalBorderSpace\<close>: two boxes whose ranges
  meet on one axis and that lie apart on the other pass when that separation is exactly
  a positive \<open>minGap\<close> and fail when it is \<open>minGap - 1\<close>; two boxes that lie apart by
  a positive amount on both axes pass for every \<open>minGap\<close>, however small the distance;
  two boxes whose ranges meet or intersect on both axes fail.
\<close>

theorem validateBorderGap_boundary:
  fixes f1 :: "'a FrameRect_scheme" and f2 :: "'b FrameRect_scheme"
  assumes "0 \<le> width f1" "0 \<le> height f1" "0 \<le> width f2" "0 \<le> height f2"
    "0 \<le> calculateTotalBorderSpace b1" "0 \<le> calculateTotalBorderSpace b2"
  shows
    "(ySeparation f1 b1 f2 b2 \<le> 0 \<and> 0 < g \<and> xSeparation f1 b1 f2 b2 = g
        \<longrightarrow> validateBorderGap f1 f2 b1 b2 g)
     \<and> (xSeparation f1 b1 f2 b2 \<le> 0 \<and> 0 < g \<and> ySeparation f1 b1 f2 b2 = g
        \<longrightarrow> validateBorderGap f1 f2 b1 b2 g)
     \<and> (ySeparation f1 b1 f2 b2 \<le> 0 \<and> xSeparation f1 b1 f2 b2 = g - 1
        \<longrightarrow> \<not> validateBorderGap f1 f2 b1 b2 g)
     \<and> (xSeparation f1 b1 f2 b2 \<le> 0 \<and> ySeparation f1 b1 f2 b2 = g - 1
        \<longrightarrow> \<not> validateBorderGap f1 f2 b1 b2 g)
     \<and> (0 < xSeparation f1 b1 f2 b2 \<and> 0 < ySeparation f1 b1 f2 b2
        \<longrightarrow> validateBorderGap f1 f2 b1 b2 g)
     \<and> (xSeparation f1 b1 f2 b2 \<le> 0 \<and> ySeparation f1 b1 f2 b2 \<le> 0
        \<longrightarrow> \<not> validateBorderGap f1 f2 b1 b2 g)"
  unfolding validateBorderGap_char[OF assms] by auto

theorem validateBorderGap_boundary_witness:
  "xSeparation (mkFrame 0 0 10 10) (getTextBoxBorderDimensions None)
      (mkFrame 46 0 10 10) (getTextBoxBorderDimensions None) = 2
   \<and> validateBorderGap (mkFrame 0 0 10 10) (mkFrame 46 0 10 10)
        (getTextBoxBorderDimensions None) (getTextBoxBorderDimensions None) 2
   \<and> xSeparation (mkFrame 0 0 10 10) (getTextBoxBorderDimensions None)
      (mkFrame 45 0 10 10) (getTextBoxBorderDimensions None) = 2 - 1
   \<and> \<not> validateBorderGap (mkFrame 0 0 10 10) (mkFrame 45 0 10 10)
        (getTextBoxBorderDimensions None) (getTextBoxBorderDimensions None) 2
   \<and> ySeparation (mkFrame 0 0 10 10) (getTextBoxBorderDimensions None)
      (mkFrame 0 46 10 10) (getTextBoxBorderDimensions None) = 2
   \<and> validateBorderGap (mkFrame 0 0 10 10) (mkFrame 0 46 10 10)
        (getTextBoxBorderDimensions None) (getTextBoxBorderDimensions None) 2
   \<and> \<not> validateBorderGap (mkFrame 0 0 10 10) (mkFrame 0 45 10 10)
        (getTextBoxBorderDimensions None) (getTextBoxBorderDimensions None) 2
   \<and> 0 < xSeparation (mkFrame 0 0 10 10) (getTextBoxBorderDimensions None)
      (mkFrame 45 45 10 10) (getTextBoxBorderDimensions None)
   \<and> validateBorderGap (mkFrame 0 0 10 10) (mkFrame 45 45 10 10)
        (getTextBoxBorderDimensions None) (getTextBoxBorderDimensions None) 2
   \<and> \<not> validateBorderGap (mkFrame 0 0 10 10) (mkFrame 5 5 10 10)
        (getTextBoxBorderDimensions None) (getTextBoxBorderDimensions None) 2"
  using
    validateBorderGap_boundary[of "mkFrame 0 0 10 10" "mkFrame 46 0 10 10"
      "getTextBoxBorderDimensions None" "getTextBoxBorderDimensions None" 2]
    validateBorderGap_boundary[of "mkFrame 0 0 10 10" "mkFrame 45 0 10 10"
      "getTextBoxBorderDimensions None" "getTextBoxBorderDimensions None" 2]
    validateBorderGap_boundary[of "mkFrame 0 0 10 10" "mkFrame 0 46 10 10"
      "getTextBoxBorderDimensions None" "getTextBoxBorderDimensions None" 2]
    validateBorderGap_boundary[of "mkFrame 0 0 10 10" "mkFrame 0 45 10 10"
      "getTextBoxBorderDimensions None" "getTextBoxBorderDimensions None" 2]
    validateBorderGap_boundary[of "mkFrame 0 0 10 10" "mkFrame 45 45 10 10"
      "getTextBoxBorderDimensions None" "getTextBoxBorderDimensions None" 2]
    validateBorderGap_boundary[of "mkFrame 0 0 10 10" "mkFrame 5 5 10 10"
      "getTextBoxBorderDimensions None" "getTextBoxBorderDimensions None" 2]
  by (simp add: xSeparation_def ySeparation_def mkFrame_def default_spaces)

section \<open>Line wrapping\<close>

lemma toIndex_pos:
  assumes "jsLe (Finite 1) m" "r \<noteq> []"
  shows "0 < toIndex m (length r)"
proof (cases m)
  case (Finite q)
  with assms have "1 \<le> q" by simp
  then have "1 \<le> \<lfloor>q\<rfloor>" by linarith
  with Finite assms show ?thesis by simp
qed (use assms in auto)

lemma take_toIndex_le:
  assumes "jsLe (Finite 1) m"
  shows "lengthLe (take (toIndex m (length r)) r) m"
proof (cases m)
  case (Finite q)
  with assms have q: "1 \<le> q" by simp
  have "length (take (toIndex m (length r)) r) \<le> nat \<lfloor>q\<rfloor>"
    using Finite by simp
  then have "of_nat (length (take (toIndex m (length r)) r)) \<le> (of_int \<lfloor>q\<rfloor> :: real)"
    using q by (simp add: of_nat_le_iff[where ?'a=real, symmetric] del: of_nat_le_iff)
  also have "\<dots> \<le> q" by simp
  finally show ?thesis using Finite by (simp add: lengthLe_def)
qed (use assms in \<open>auto simp: lengthLe_def\<close>)

lemma wrapText_loop_total:
  assumes "jsLe (Finite 1) m"
  shows "\<exists>ls. wrapText_loop m r lines = Some (lines @ ls) \<and> (\<forall>l \<in> set ls. lengthLe l m)"
proof (induction "length r" arbitrary: r lines rule: less_induct)
  case less
  show ?case
  proof (cases "r = []")
    case True
    then show ?thesis by (subst wrapText_loop.simps) simp
  next
    case False
    show ?thesis
    proof (cases "lengthLe r m")
      case True
      with False show ?thesis by (subst wrapText_loop.simps) simp
    next
      case nle: False
      let ?k = "toIndex m (length r)"
      have "0 < ?k" using toIndex_pos[OF assms False] .
      then have "length (drop ?k r) < length r" using False by simp
      from less[OF this, of "lines @ [take ?k r]"]
      obtain ls where ls: "wrapText_loop m (drop ?k r) (lines @ [take ?k r]) = Some ((lines @ [take ?k r]) @ ls)"
        "\<forall>l \<in> set ls. lengthLe l m" by blast
      have "wrapText_loop m r lines = Some (lines @ (take ?k r # ls))"
        using False nle ls(1) by (subst wrapText_loop.simps) simp
      moreover have "\<forall>l \<in> set (take ?k r # ls). lengthLe l m"
        using ls(2) take_toIndex_le[OF assms] by simp
      ultimately show ?thesis by blast
    qed
  qed
qed

lemma wrapText_paragraphs_total:
  assumes "jsLe (Finite 1) m"
  shows "\<exists>ls. wrapText_paragraphs m ps lines = Some (lines @ ls) \<and> (\<forall>l \<in> set ls. lengthLe l m)"
proof (induction ps arbitrary: lines)
  case Nil
  then show ?case by simp
next
  case (Cons p ps)
  show ?case
  proof (cases "lengthLe p m")
    case True
    from Cons[of "lines @ [p]"] obtain ls where
      "wrapText_paragraphs m ps (lines @ [p]) = Some ((lines @ [p]) @ ls)" "\<forall>l \<in> set ls. lengthLe l m"
      by blast
    with True have "wrapText_paragraphs m (p # ps) lines = Some (lines @ (p # ls))"
      "\<forall>l \<in> set (p # ls). lengthLe l m" by simp_all
    then show ?thesis by blast
  next
    case False
    from wrapText_loop_total[OF assms, of p lines] obtain l1 where
      l1: "wrapText_loop m p lines = Some (lines @ l1)" "\<forall>l \<in> set l1. lengthLe l m" by blast
    from Cons[of "lines @ l1"] obtain ls where
      ls: "wrapText_paragraphs m ps (lines @ l1) = Some ((lines @ l1) @ ls)" "\<forall>l \<in> set ls. lengthLe l m"
      by blast
    from False l1 ls have "wrapText_paragraphs m (p # ps) lines = Some (lines @ (l1 @ ls))"
      "\<forall>l \<in> set (l1 @ ls). lengthLe l m" by auto
    then show ?thesis by blast
  qed
qed

lemma lines_of_paragraph_finite:
  assumes "jsLe (Finite 1) m"
  shows "\<exists>n. jsCeil (jsDivBy k m) = Finite n"
proof (cases m)
  case (Finite q)
  with assms have "q \<noteq> 0" by auto
  with Finite show ?thesis by simp
qed (use assms in auto)

lemma fold_lines_finite:
  assumes "jsLe (Finite 1) m"
  shows "\<exists>n. fold (\<lambda>paragraph totalLines.
                if length paragraph = 0 then jsAdd totalLines (Finite 1)
                else jsAdd totalLines (jsCeil (jsDivBy (of_nat (length paragraph)) m)))
          ps (Finite a) = Finite n"
proof (induction ps arbitrary: a)
  case Nil
  then show ?case by simp
next
  case (Cons p ps)
  obtain c where c: "jsCeil (jsDivBy (of_nat (length p)) m) = Finite c"
    using lines_of_paragraph_finite[OF assms] by blast
  show ?case using Cons[of "a + 1"] Cons[of "a + c"] c by simp
qed

text \<open>
  C10. Line wrapping is total under the width precondition: whenever the line width
  \<open>floor((maxWidth - 40) / (fontSize * 0.8))\<close> is at least 1 (it may be infinite),
  \<open>wrapText\<close> returns, every line it returns has at most that many characters, and
  \<open>calculateTextLines\<close> returns a finite count.
\<close>

theorem wrapText_total:
  assumes "jsLe (Finite 1) (maxCharsPerLine maxWidth fontSize)"
  shows "(\<exists>lines. wrapText text maxWidth fontSize = Some lines
            \<and> (\<forall>l \<in> set lines. lengthLe l (maxCharsPerLine maxWidth fontSize)))
         \<and> (\<exists>n. calculateTextLines text maxWidth fontSize = Finite n)"
proof
  show "\<exists>lines. wrapText text maxWidth fontSize = Some lines
            \<and> (\<forall>l \<in> set lines. lengthLe l (maxCharsPerLine maxWidth fontSize))"
    using wrapText_paragraphs_total[OF assms, of "splitOn LINE_FEED text" "[]"]
    by (simp add: wrapText_def)
  show "\<exists>n. calculateTextLines text maxWidth fontSize = Finite n"
    using fold_lines_finite[OF assms] by (simp add: calculateTextLines_def Let_def)
qed

theorem wrapText_total_witness:
  "jsLe (Finite 1) (maxCharsPerLine 100 25)
   \<and> (\<exists>lines. wrapText [0x61, 0x62, 0x63, 0x64, 0x0A, 0x65] 100 25 = Some lines
            \<and> (\<forall>l \<in> set lines. lengthLe l (maxCharsPerLine 100 25)))
   \<and> (\<exists>n. calculateTextLines [0x61, 0x62, 0x63, 0x64, 0x0A, 0x65] 100 25 = Finite n)"
  using wrapText_total[of 100 25 "[0x61, 0x62, 0x63, 0x64, 0x0A, 0x65]"]
  by (simp add: maxCharsPerLine_def)

text \<open>
  The precondition is needed: with a line width of 0 the loop does not return on a
  non-empty paragraph.
\<close>

lemma wrapText_loop_zero_width_aux:
  assumes "wrapText_loop m r lines = Some res"
  shows "m = Finite 0 \<longrightarrow> r = []"
proof (rule wrapText_loop.raw_induct[where P = "\<lambda>m r lines res. m = Finite 0 \<longrightarrow> r = []", OF _ assms])
  fix f :: "jsnum \<Rightarrow> 'a list \<Rightarrow> 'a list list \<Rightarrow> 'a list list option"
    and m r lines res
  assume IH: "\<And>m r lines res. f m r lines = Some res \<Longrightarrow> m = Finite 0 \<longrightarrow> r = []"
    and step: "(if length r > 0
     then (if lengthLe r m then Some (lines @ [r])
           else f m (drop (toIndex m (length r)) r)
                  (lines @ [take (toIndex m (length r)) r]))
     else Some lines) = Some res"
  show "m = Finite 0 \<longrightarrow> r = []"
  proof
    assume m: "m = Finite 0"
    show "r = []"
    proof (rule ccontr)
      assume ne: "r \<noteq> []"
      then have "\<not> lengthLe r m" using m by (simp add: lengthLe_def)
      with ne step m have "f m r (lines @ [[]]) = Some res" by simp
      with IH m ne show False by blast
    qed
  qed
qed

lemma wrapText_loop_zero_width:
  "r \<noteq> [] \<Longrightarrow> wrapText_loop (Finite 0) r lines = None"
  using wrapText_loop_zero_width_aux[of "Finite 0" r lines] by (cases "wrapText_loop (Finite 0) r lines") auto

lemma wrapText_zero_width:
  "wrapText [0x61] 40 20 = None"
  by (simp add: wrapText_def maxCharsPerLine_def LINE_FEED_def lengthLe_def wrapText_loop_zero_width)

section \<open>Scale monotonicity\<close>

lemmas scale_eval = applyScalePreset_def applyScaleFactor_def getScaleConfig_def SCALE_PRESETS_def
  LAYOUT_VARIANTS_def scaleRect_def Math_round_def mkFrame_def mkBox_def Let_def

lemma scaledWidths_table:
  "scaledWidths landscape_square mini = [273, 353, 159, 159, 159, 159]"
  "scaledWidths landscape_square slim = [312, 403, 182, 182, 182, 182]"
  "scaledWidths landscape_square compact' = [351, 454, 204, 204, 204, 204]"
  "scaledWidths landscape_square moderate = [371, 479, 216, 216, 216, 216]"
  "scaledWidths landscape_square standard = [390, 504, 227, 227, 227, 227]"
  "scaledWidths landscape_flat mini = [273, 353, 159, 159, 159, 159]"
  "scaledWidths landscape_flat slim = [312, 403, 182, 182, 182, 182]"
  "scaledWidths landscape_flat compact' = [351, 454, 204, 204, 204, 204]"
  "scaledWidths landscape_flat moderate = [371, 479, 216, 216, 216, 216]"
  "scaledWidths landscape_flat standard = [390, 504, 227, 227, 227, 227]"
  "scaledWidths portrait_square mini = [336, 336, 151, 151, 151, 151]"
  "scaledWidths portrait_square slim = [384, 384, 172, 172, 172, 172]"
  "scaledWidths portrait_square compact' = [432, 432, 194, 194, 194, 194]"
  "scaledWidths portrait_square moderate = [456, 456, 204, 204, 204, 204]"
  "scaledWidths portrait_square standard = [480, 480, 215, 215, 215, 215]"
  "scaledWidths portrait_flat mini = [336, 336, 151, 151, 151, 151]"
  "scaledWidths portrait_flat slim = [384, 384, 172, 172, 172, 172]"
  "scaledWidths portrait_flat compact' = [432, 432, 194, 194, 194, 194]"
  "scaledWidths portrait_flat moderate = [456, 456, 204, 204, 204, 204]"
  "scaledWidths portrait_flat standard = [480, 480, 215, 215, 215, 215]"
  by (simp_all add: scaledWidths_def allRects_def getAllTextBoxes_def scale_eval FrameRect.truncate_def)

lemma scaled_inside:
  "list_all (insideCanvas (canvas (LAYOUT_VARIANTS v)))
     (allRects (applyScalePreset (LAYOUT_VARIANTS v) p))"
  by (cases v; cases p)
    (simp_all add: insideCanvas_def allRects_def getAllTextBoxes_def scale_eval FrameRect.truncate_def)

text \<open>
  C5. For each of the four catalogue variants and each of its six rectangles
  (illustration frame, title panel, four content panels), the width produced by
  \<open>applyScalePreset\<close> increases strictly along mini, slim, compact, moderate,
  standard; every scaled rectangle lies inside the canvas, and the canvas is unchanged.
\<close>

theorem scale_monotone_inside:
  "list_all2 (<) (scaledWidths v mini) (scaledWidths v slim)
   \<and> list_all2 (<) (scaledWidths v slim) (scaledWidths v compact')
   \<and> list_all2 (<) (scaledWidths v compact') (scaledWidths v moderate)
   \<and> list_all2 (<) (scaledWidths v moderate) (scaledWidths v standard)
   \<and> length (scaledWidths v p) = 6
   \<and> list_all (insideCanvas (canvas (LAYOUT_VARIANTS v)))
        (allRects (applyScalePreset (LAYOUT_VARIANTS v) p))
   \<and> canvas (applyScalePreset (LAYOUT_VARIANTS v) p) = canvas (LAYOUT_VARIANTS v)"
proof -
  have "canvas (applyScalePreset (LAYOUT_VARIANTS v) p) = canvas (LAYOUT_VARIANTS v)"
    by (simp add: applyScalePreset_def applyScaleFactor_def Let_def)
  moreover have "length (scaledWidths v p) = 6"
    by (cases v) (simp_all add: scaledWidths_def allRects_def getAllTextBoxes_def
        applyScalePreset_def applyScaleFactor_def Let_def LAYOUT_VARIANTS_def)
  ultimately show ?thesis
    using scaled_inside[of v p] by (cases v) (simp_all add: scaledWidths_table)
qed

section \<open>The frame renderer\<close>

lemma lookup_none: "lookupKey FRAME_PRESETS ''none'' = Own \<lparr>fp_id = ''none'', cornerAsset = [], borderAsset = [], cornerSize = 0,
                 fp_borderThickness = 0, fp_insetOffset = 0\<rparr>"
  by (simp add: lookupKey_def FRAME_PRESETS_def)

text \<open>
  C6. Frame preset \<open>none\<close> is the identity: for every card buffer and every other
  option, \<open>renderFrame\<close> returns the buffer it was given, with nothing composited.
\<close>

theorem renderFrame_none_identity:
  "renderFrame fileExists cardBuffer (options\<lparr>presetId := ''none''\<rparr>) = Inr cardBuffer"
  by (simp add: renderFrame_def lookup_none isDecorativePreset_def)

text \<open>
  The edge loop of \<open>renderFrame\<close>, for any preset, override and card size: the length
  of a strip is the canvas dimension minus twice corner size plus inset; a strip of
  non-positive length is skipped; a rendered strip is placed in a rectangle whose
  thickness is the rounded scaled override \<open>bt\<close>, while its raster has the rounded
  scaled thickness of the preset.
\<close>

lemma border_strip_length:
  "(let d = calculateBorderPosition position cw ch cs t io
    in if position = edge_top \<or> position = edge_bottom then width d else height d)
   = (if position = edge_top \<or> position = edge_bottom then cw else ch) - 2 * (cs + io)"
  by (cases position) (simp_all add: calculateBorderPosition_def Let_def)

lemma renderFrame_border_skipped:
  assumes "(if position = edge_top \<or> position = edge_bottom then cw else ch) - 2 * (cs + io) \<le> 0"
  shows "renderFrame_border fileExists preset sf cw ch cs bt io position = Inr None"
  using assms
  by (cases position) (simp_all add: renderFrame_border_def calculateBorderPosition_def Let_def)

lemma renderFrame_border_rendered:
  assumes "0 < (if position = edge_top \<or> position = edge_bottom then cw else ch) - 2 * (cs + io)"
    and "loadAsset fileExists (borderAsset preset) = Inr a"
  shows "renderFrame_border fileExists preset sf cw ch cs bt io position =
    Inr (Some (calculateBorderPosition position cw ch cs (Math_round (bt * sf)) io,
      (let strip = ResizeFill a
                     ((if position = edge_top \<or> position = edge_bottom then cw else ch)
                        - 2 * (cs + io))
                     (Math_round (fp_borderThickness preset * sf))
       in if position = edge_left \<or> position = edge_right then Rotate strip 90 else strip)))"
  using assms
  by (cases position)
    (simp_all add: renderFrame_border_def renderBorderStrip_def calculateBorderPosition_def
      bindE_def Let_def)

lemma lookup_classic: "lookupKey FRAME_PRESETS ''classic'' = Own (mkPreset ''classic'' 110 25 8)"
  by (simp add: lookupKey_def FRAME_PRESETS_def)

lemma loadAsset_classic:
  "loadAsset (\<lambda>_. True) ''frames/classic/border.svg'' = Inr (Asset ''frames/classic/border.svg'')"
  "loadAsset (\<lambda>_. True) ''frames/classic/corner.svg'' = Inr (Asset ''frames/classic/corner.svg'')"
  by (simp_all add: loadAsset_def validateAssetExists_def getAssetFormat_def extname_def
      basename_def toLowerCase_def isBlankChar_def Let_def)

text \<open>
  C7 fails on the code. With the classic preset (edge thickness 25) on a 1024 by 768
  landscape card and a thickness override of 10, the placement rectangle of the top
  strip is 788 by 10, but the strip is rendered 788 by 25: \<open>renderBorderStrip\<close> scales
  the preset's thickness, not the override.
\<close>

theorem edge_strip_ignores_thickness_override:
  "renderFrame_border (\<lambda>_. True) (mkPreset ''classic'' 110 25 8) 1 1024 768 110 10 8 edge_top
     = Inr (Some (\<lparr>x = 118, y = 8, width = 788, height = 10\<rparr>,
                  ResizeFill (Asset ''frames/classic/border.svg'') 788 25))
   \<and> renderFrame (\<lambda>_. True) sampleCard classicOverride
     = Inr (Composite sampleCard
         [(ResizeFill (Asset ''frames/classic/corner.svg'') 110 110, 8, 8),
          (Flop (ResizeFill (Asset ''frames/classic/corner.svg'') 110 110), 906, 8),
          (Flip (ResizeFill (Asset ''frames/classic/corner.svg'') 110 110), 8, 650),
          (Rotate (ResizeFill (Asset ''frames/classic/corner.svg'') 110 110) 180, 906, 650),
          (ResizeFill (Asset ''frames/classic/border.svg'') 788 25, 118, 8),
          (Rotate (ResizeFill (Asset ''frames/classic/border.svg'') 532 25) 90, 1006, 118),
          (ResizeFill (Asset ''frames/classic/border.svg'') 788 25, 118, 750),
          (Rotate (ResizeFill (Asset ''frames/classic/border.svg'') 532 25) 90, 8, 118)])"
  by (simp add: renderFrame_def renderFrame_border_def renderFrame_corner_def classicOverride_def
      sampleCard_def lookup_classic isDecorativePreset_def validatePresetAssets_def
      validateAssetExists_def isBlankChar_def mkPreset_def bindE_def getScaleFactorForLayout_def
      getLayoutModeFromVariant_def Math_round_def ALL_CORNERS_def ALL_BORDERS_def
      renderCornerOrnament_def renderBorderStrip_def loadAsset_classic[unfolded mkPreset_def]
      calculateCornerPosition_def calculateBorderPosition_def CORNER_TRANSFORMS_def
      sharpComposite_def decodable_def stripOverlay_def List.map_filter_def Let_def)

section \<open>Unknown ids\<close>

text \<open>
  C9, as the code has it. The claim makes every lookup fail on an id outside its enum;
  the blur lookup and the panel colour lookup return their default instead.
\<close>

theorem unknown_id_defaults_counterexample:
  "''extreme'' \<notin> set (map fst BLUR_PRESETS)
   \<and> getBlurConfig ''extreme'' = Inr (Own mediumBlur)
   \<and> ''pink'' \<notin> set (map fst PREMIUM_TEXTBOX_COLORS)
   \<and> getTextBoxColorGradient ''pink'' = Inr obsidianGradient"
  by (simp add: getBlurConfig_def lookupKey_def BLUR_PRESETS_def OBJECT_PROTOTYPE_KEYS_def
      mediumBlur_def getTextBoxColorGradient_def PREMIUM_TEXTBOX_COLORS_def obsidianGradient_def)

lemma renderFrame_unknown_preset:
  assumes "s \<notin> set VALID_PRESET_IDS"
  shows "\<exists>e. renderFrame fileExists cardBuffer (options\<lparr>presetId := s\<rparr>) = Inl e"
proof -
  have none: "map_of FRAME_PRESETS s = None" and dec: "isDecorativePreset s"
    using assms by (auto simp: FRAME_PRESETS_def VALID_PRESET_IDS_def isDecorativePreset_def)
  show ?thesis
  proof (cases "s \<in> set OBJECT_PROTOTYPE_KEYS")
    case True
    then have "lookupKey FRAME_PRESETS s = Inherited" by (simp add: lookupKey_def none)
    then show ?thesis using dec by (simp add: renderFrame_def)
  next
    case False
    then have "lookupKey FRAME_PRESETS s = Undefined" by (simp add: lookupKey_def none)
    then show ?thesis by (simp add: renderFrame_def)
  qed
qed

lemma getBlurConfig_unknown:
  assumes "s \<notin> set (map fst BLUR_PRESETS)" "s \<notin> set OBJECT_PROTOTYPE_KEYS"
  shows "getBlurConfig s = Inr (Own mediumBlur)"
proof -
  have "map_of BLUR_PRESETS s = None" using assms(1) by (simp add: map_of_eq_None_iff)
  then have "lookupKey BLUR_PRESETS s = Undefined" using assms(2) by (simp add: lookupKey_def)
  moreover have "lookupKey BLUR_PRESETS ''medium'' = Own mediumBlur"
    by (simp add: lookupKey_def BLUR_PRESETS_def mediumBlur_def)
  ultimately show ?thesis by (simp add: getBlurConfig_def)
qed

lemma getBlurConfig_Inr: "\<exists>v. getBlurConfig s = Inr v"
  by (simp add: getBlurConfig_def split: Lookup.splits)

lemma getTextBoxColorGradient_Inr: "\<exists>v. getTextBoxColorGradient s = Inr v"
  by (simp add: getTextBoxColorGradient_def split: option.splits)

lemma getTextBoxColorGradient_unknown:
  assumes "s \<notin> set (map fst PREMIUM_TEXTBOX_COLORS)"
  shows "getTextBoxColorGradient s = Inr obsidianGradient"
proof -
  have "find (\<lambda>c. fst c = s) PREMIUM_TEXTBOX_COLORS = None"
    using assms by (force simp: find_None_iff)
  then show ?thesis
    by (simp add: getTextBoxColorGradient_def)
      (simp add: PREMIUM_TEXTBOX_COLORS_def obsidianGradient_def)
qed

text \<open>
  C9, amended. An id outside the enum is a fatal error for frame preset resolution
  only: \<open>renderFrame\<close> fails for every string that is not one of the six preset ids.
  \<open>getBlurConfig\<close> and \<open>getTextBoxColorGradient\<close> never fail: for a string that is
  no blur intensity (and no member name of \<open>Object.prototype\<close>) \<open>getBlurConfig\<close>
  returns the medium configuration, and for a string that is no colour id
  \<open>getTextBoxColorGradient\<close> returns the obsidian gradient.
\<close>

theorem unknown_id_lookups:
  "(s \<notin> set VALID_PRESET_IDS
      \<longrightarrow> (\<exists>e. renderFrame fileExists cardBuffer (options\<lparr>presetId := s\<rparr>) = Inl e))
   \<and> (\<exists>v. getBlurConfig s = Inr v)
   \<and> (s \<notin> set (map fst BLUR_PRESETS) \<and> s \<notin> set OBJECT_PROTOTYPE_KEYS
      \<longrightarrow> getBlurConfig s = Inr (Own mediumBlur))
   \<and> (\<exists>v. getTextBoxColorGradient s = Inr v)
   \<and> (s \<notin> set (map fst PREMIUM_TEXTBOX_COLORS)
      \<longrightarrow> getTextBoxColorGradient s = Inr obsidianGradient)"
  using renderFrame_unknown_preset getBlurConfig_unknown getBlurConfig_Inr
    getTextBoxColorGradient_Inr getTextBoxColorGradient_unknown
  by blast

theorem unknown_id_lookups_witness:
  "''extreme'' \<notin> set VALID_PRESET_IDS
   \<and> (\<exists>e. renderFrame (\<lambda>_. True) sampleCard (classicOverride\<lparr>presetId := ''extreme''\<rparr>) = Inl e)
   \<and> ''extreme'' \<notin> set (map fst BLUR_PRESETS) \<and> ''extreme'' \<notin> set OBJECT_PROTOTYPE_KEYS
   \<and> getBlurConfig ''extreme'' = Inr (Own mediumBlur)
   \<and> ''extreme'' \<notin> set (map fst PREMIUM_TEXTBOX_COLORS)
   \<and> getTextBoxColorGradient ''extreme'' = Inr obsidianGradient"
  using unknown_id_lookups[of "''extreme''" "\<lambda>_. True" sampleCard classicOverride]
  by (simp add: VALID_PRESET_IDS_def BLUR_PRESETS_def OBJECT_PROTOTYPE_KEYS_def
      PREMIUM_TEXTBOX_COLORS_def)

section \<open>The card compositor\<close>

lemma scaleRect_size:
  fixes b :: "'a FrameRect_scheme"
  shows "width (scaleRect b f cx cy) = Math_round (width b * f)"
    and "height (scaleRect b f cx cy) = Math_round (height b * f)"
  by (simp_all add: scaleRect_def Let_def)

lemma scaleRect_boxId: "boxId (scaleRect b f cx cy) = boxId b"
  by (simp add: scaleRect_def Let_def)

lemma scaled_dims:
  fixes b :: "'a FrameRect_scheme"
  assumes "215 \<le> width b" "70 \<le> height b" "7 / 10 \<le> f"
  shows "151 \<le> width (scaleRect b f cx cy) \<and> 1 \<le> height (scaleRect b f cx cy)
     \<and> width (scaleRect b f cx cy) \<in> \<int> \<and> height (scaleRect b f cx cy) \<in> \<int>"
proof -
  have "215 * (7 / 10) \<le> width b * f"
    using assms by (intro mult_mono) simp_all
  then have w: "301 / 2 \<le> width b * f" by simp
  have "70 * (7 / 10) \<le> height b * f"
    using assms by (intro mult_mono) simp_all
  then have h: "1 / 2 \<le> height b * f" by simp
  show ?thesis
    using w h by (simp add: scaleRect_size Math_round_def le_floor_iff)
qed

lemma catalogue_base:
  "list_all (\<lambda>b. 215 \<le> width b \<and> 70 \<le> height b \<and> width b \<in> \<int> \<and> height b \<in> \<int>)
     (getAllTextBoxes (LAYOUT_VARIANTS v))
   \<and> map boxId (getAllTextBoxes (LAYOUT_VARIANTS v))
       = [''title'', ''content1'', ''content2'', ''content3'', ''content4'']
   \<and> 215 \<le> width (artworkFrame (LAYOUT_VARIANTS v))
   \<and> 70 \<le> height (artworkFrame (LAYOUT_VARIANTS v))
   \<and> width (artworkFrame (LAYOUT_VARIANTS v)) \<in> \<int>
   \<and> height (artworkFrame (LAYOUT_VARIANTS v)) \<in> \<int>"
  by (cases v) (simp_all add: getAllTextBoxes_def LAYOUT_VARIANTS_def mkBox_def mkFrame_def)

lemma catalogue_dims:
  "list_all (\<lambda>b. 151 \<le> width b \<and> 1 \<le> height b \<and> width b \<in> \<int> \<and> height b \<in> \<int>)
     (getAllTextBoxes (applyScalePreset (LAYOUT_VARIANTS v) p))
   \<and> map boxId (getAllTextBoxes (applyScalePreset (LAYOUT_VARIANTS v) p))
       = [''title'', ''content1'', ''content2'', ''content3'', ''content4'']
   \<and> 1 \<le> width (artworkFrame (applyScalePreset (LAYOUT_VARIANTS v) p))
   \<and> 1 \<le> height (artworkFrame (applyScalePreset (LAYOUT_VARIANTS v) p))
   \<and> width (artworkFrame (applyScalePreset (LAYOUT_VARIANTS v) p)) \<in> \<int>
   \<and> height (artworkFrame (applyScalePreset (LAYOUT_VARIANTS v) p)) \<in> \<int>"
proof -
  define l where "l = LAYOUT_VARIANTS v"
  define f where "f = max (70 / 100) (min 1 (getScaleConfig p))"
  define cx where "cx = cwidth (canvas l) / 2"
  define cy where "cy = cheight (canvas l) / 2"
  have f: "7 / 10 \<le> f" by (simp add: f_def)
  have base: "\<forall>b \<in> set (getAllTextBoxes l).
      215 \<le> width b \<and> 70 \<le> height b \<and> width b \<in> \<int> \<and> height b \<in> \<int>"
    "map boxId (getAllTextBoxes l) = [''title'', ''content1'', ''content2'', ''content3'', ''content4'']"
    "215 \<le> width (artworkFrame l)" "70 \<le> height (artworkFrame l)"
    "width (artworkFrame l) \<in> \<int>" "height (artworkFrame l) \<in> \<int>"
    using catalogue_base[of v] by (simp_all add: l_def list_all_iff)
  have scaled: "applyScalePreset l p =
      (if f = 1 then l
       else l\<lparr>canvas := canvas l,
               artworkFrame := scaleRect (artworkFrame l) f cx cy,
               titleBox := scaleRect (titleBox l) f cx cy,
               contentBoxes := map (\<lambda>box. scaleRect box f cx cy) (contentBoxes l)\<rparr>)"
    by (simp only: applyScalePreset_def applyScaleFactor_def Let_def f_def cx_def cy_def)
  show ?thesis
  proof (cases "f = 1")
    case True
    then have "applyScalePreset l p = l"
      by (simp add: scaled)
    moreover have "\<forall>b \<in> set (getAllTextBoxes l).
        151 \<le> width b \<and> 1 \<le> height b \<and> width b \<in> \<int> \<and> height b \<in> \<int>"
      using base(1) by force
    ultimately show ?thesis
      using base(2-6) unfolding l_def[symmetric] by (simp add: list_all_iff)
  next
    case False
    then have boxes: "getAllTextBoxes (applyScalePreset l p)
        = map (\<lambda>b. scaleRect b f cx cy) (getAllTextBoxes l)"
      and frame: "artworkFrame (applyScalePreset l p) = scaleRect (artworkFrame l) f cx cy"
      by (simp_all add: scaled getAllTextBoxes_def)
    have "\<forall>b \<in> set (getAllTextBoxes l).
        151 \<le> width (scaleRect b f cx cy) \<and> 1 \<le> height (scaleRect b f cx cy)
        \<and> width (scaleRect b f cx cy) \<in> \<int> \<and> height (scaleRect b f cx cy) \<in> \<int>"
      using base(1) f scaled_dims by blast
    then have A: "list_all (\<lambda>b. 151 \<le> width b \<and> 1 \<le> height b \<and> width b \<in> \<int> \<and> height b \<in> \<int>)
        (getAllTextBoxes (applyScalePreset l p))"
      by (simp add: boxes list_all_iff)
    have B: "map boxId (getAllTextBoxes (applyScalePreset l p))
        = [''title'', ''content1'', ''content2'', ''content3'', ''content4'']"
      using base(2) by (simp add: boxes comp_def scaleRect_boxId)
    have C: "1 \<le> width (artworkFrame (applyScalePreset l p))
       \<and> 1 \<le> height (artworkFrame (applyScalePreset l p))
       \<and> width (artworkFrame (applyScalePreset l p)) \<in> \<int>
       \<and> height (artworkFrame (applyScalePreset l p)) \<in> \<int>"
      using scaled_dims[OF base(3,4) f, of cx cy] by (simp add: frame)
    from A B C show ?thesis unfolding l_def by simp
  qed
qed

lemma composeCard_layout_catalogue:
  "\<exists>v p. composeCard_layout options = applyScalePreset (LAYOUT_VARIANTS v) p"
proof -
  have std: "\<And>l. applyScalePreset l standard = l"
    by (simp add: applyScalePreset_def applyScaleFactor_def getScaleConfig_def SCALE_PRESETS_def)
  have "(case cardLayoutVariant options of
         Some v \<Rightarrow> getLayoutConfigByVariant v
       | None \<Rightarrow> getLayoutConfig (case layoutMode options of None \<Rightarrow> landscape | Some m \<Rightarrow> m))
       \<in> range LAYOUT_VARIANTS"
    by (simp add: getLayoutConfigByVariant_def getLayoutConfig_def LANDSCAPE_LAYOUT_def
        PORTRAIT_LAYOUT_def split: option.splits)
  then obtain v where v: "(case cardLayoutVariant options of
         Some v \<Rightarrow> getLayoutConfigByVariant v
       | None \<Rightarrow> getLayoutConfig (case layoutMode options of None \<Rightarrow> landscape | Some m \<Rightarrow> m))
       = LAYOUT_VARIANTS v"
    by blast
  show ?thesis
  proof (cases "scalePreset options")
    case None
    then have "composeCard_layout options = applyScalePreset (LAYOUT_VARIANTS v) standard"
      by (simp add: composeCard_layout_def composeCard_scaledLayout_def v std)
    then show ?thesis by blast
  next
    case (Some p)
    then have "composeCard_layout options = applyScalePreset (LAYOUT_VARIANTS v) p"
      by (simp add: composeCard_layout_def composeCard_scaledLayout_def v std)
    then show ?thesis by blast
  qed
qed

lemma composeCard_box_dims:
  "b \<in> set (getAllTextBoxes (composeCard_layout options))
     \<Longrightarrow> 151 \<le> width b \<and> 1 \<le> height b \<and> width b \<in> \<int> \<and> height b \<in> \<int>"
proof -
  assume b: "b \<in> set (getAllTextBoxes (composeCard_layout options))"
  obtain v p where "composeCard_layout options = applyScalePreset (LAYOUT_VARIANTS v) p"
    using composeCard_layout_catalogue by blast
  then have "list_all (\<lambda>b. 151 \<le> width b \<and> 1 \<le> height b \<and> width b \<in> \<int> \<and> height b \<in> \<int>)
     (getAllTextBoxes (composeCard_layout options))"
    using catalogue_dims[of v p] by simp
  then show ?thesis using b by (simp add: list_all_iff)
qed

lemma composeCard_frame_dims:
  "1 \<le> width (artworkFrame (composeCard_layout options))
   \<and> 1 \<le> height (artworkFrame (composeCard_layout options))
   \<and> width (artworkFrame (composeCard_layout options)) \<in> \<int>
   \<and> height (artworkFrame (composeCard_layout options)) \<in> \<int>"
proof -
  obtain v p where "composeCard_layout options = applyScalePreset (LAYOUT_VARIANTS v) p"
    using composeCard_layout_catalogue by blast
  then show ?thesis using catalogue_dims[of v p] by simp
qed

lemma composeCard_box_ids:
  "map boxId (getAllTextBoxes (composeCard_layout options))
     = [''title'', ''content1'', ''content2'', ''content3'', ''content4'']"
proof -
  obtain v p where "composeCard_layout options = applyScalePreset (LAYOUT_VARIANTS v) p"
    using composeCard_layout_catalogue by blast
  then show ?thesis using catalogue_dims[of v p] by simp
qed

lemma glow_padding_whole: "glowPaddingOf g \<in> \<int>"
  by (simp add: glowPaddingOf_def Math_ceil_def Let_def)

lemma composeCard_glow_padding: "0 \<le> glowPaddingOf (composeCard_glow options)"
  by (simp add: composeCard_glow_def glowPaddingOf_def getGlowConfig_def GLOW_PRESETS_def
      DEFAULT_GLOW_CONFIG_def Math_ceil_def Let_def split: option.splits GlowIntensity.splits)

lemma padded_size:
  fixes w :: real
  assumes "0 \<le> w" "w \<in> \<int>" "0 \<le> gp" "gp \<in> \<int>" "1 \<le> ring" "ring \<in> \<int>"
  shows "Math_round (w + 2 * ring + 2 * gp) = w + 2 * (ring + gp)"
    and "\<not> Math_round (w + 2 * ring + 2 * gp) < 1"
proof -
  have "w + 2 * ring + 2 * gp \<in> \<int>" using assms by (intro Ints_add Ints_mult) simp_all
  then have r: "Math_round (w + 2 * ring + 2 * gp) = w + 2 * ring + 2 * gp"
    by (rule Math_round_whole)
  show "Math_round (w + 2 * ring + 2 * gp) = w + 2 * (ring + gp)" using r by simp
  show "\<not> Math_round (w + 2 * ring + 2 * gp) < 1" using r assms by simp
qed

lemma textbox_border_layer:
  fixes b :: "'a FrameRect_scheme"
  assumes "0 \<le> width b" "0 \<le> height b" "width b \<in> \<int>" "height b \<in> \<int>"
    and "0 \<le> glowPaddingOf g"
  shows "\<exists>r. renderDoubleLineTextBoxBorder b None uid g = Inr r
           \<and> (BorderRaster (buffer r), max 0 (posX r), max 0 (posY r))
               = borderLayer b ENHANCED_TEXTBOX_BORDER 8 (Some 10) uid g"
proof -
  have m: "mergeStyle ENHANCED_TEXTBOX_BORDER None = ENHANCED_TEXTBOX_BORDER"
    by (simp add: mergeStyle_def)
  have r: "ringWidth ENHANCED_TEXTBOX_BORDER = 8"
    using default_rings(2) by (simp add: m)
  note w = padded_size[OF assms(1,3,5) glow_padding_whole, of 8, simplified]
  note h = padded_size[OF assms(2,4,5) glow_padding_whole, of 8, simplified]
  show ?thesis
    using assms(1,2,5)
    by (simp add: textbox_border_result Let_def m r w h borderLayer_def edgePadding_def
        TEXT_BOX_BORDER_RADIUS_def)
qed

lemma artwork_border_layer:
  fixes b :: "'a FrameRect_scheme"
  assumes "0 \<le> width b" "0 \<le> height b" "width b \<in> \<int>" "height b \<in> \<int>"
    and "0 \<le> glowPaddingOf g"
  shows "\<exists>r. renderDoubleLineArtworkBorder b None g = Inr r
           \<and> (BorderRaster (buffer r), max 0 (posX r), max 0 (posY r))
               = borderLayer b ENHANCED_ARTWORK_BORDER 10 None ''artwork'' g"
proof -
  have m: "mergeStyle ENHANCED_ARTWORK_BORDER None = ENHANCED_ARTWORK_BORDER"
    by (simp add: mergeStyle_def)
  have r: "ringWidth ENHANCED_ARTWORK_BORDER = 10"
    using default_rings(1) by (simp add: m)
  note w = padded_size[OF assms(1,3,5) glow_padding_whole, of 10, simplified]
  note h = padded_size[OF assms(2,4,5) glow_padding_whole, of 10, simplified]
  show ?thesis
    using assms(1,2,5)
    by (simp add: artwork_border_result Let_def m r w h borderLayer_def edgePadding_def)
qed

lemma sharpSvg_whole:
  assumes "1 \<le> w" "1 \<le> h" "w \<in> \<int>" "h \<in> \<int>"
  shows "sharpSvg w h svg = Inr \<lparr>pngWidth = w, pngHeight = h, pngSource = svg\<rparr>"
  using assms by (simp add: sharpSvg_result Math_round_whole)

lemma panelLayers_result:
  assumes "1 \<le> width b" "1 \<le> height b" "width b \<in> \<int>" "height b \<in> \<int>"
    and "0 \<le> glowPaddingOf g" and "3 \<le> length gradient"
  shows "panelLayers gradient texture blurCfg g (i, b) =
           Inr [backgroundLayer b gradient texture blurCfg,
                borderLayer b ENHANCED_TEXTBOX_BORDER 8 (Some 10) (''textbox'' @ showNat i) g]"
proof -
  obtain r where r: "renderDoubleLineTextBoxBorder b None (''textbox'' @ showNat i) g = Inr r"
    "(BorderRaster (buffer r), max 0 (posX r), max 0 (posY r))
       = borderLayer b ENHANCED_TEXTBOX_BORDER 8 (Some 10) (''textbox'' @ showNat i) g"
    using textbox_border_layer[of b g "''textbox'' @ showNat i"] assms by auto
  show ?thesis
    using assms r
    by (simp add: panelLayers_def Let_def createTextBoxBackgroundSvg_def sharpSvg_whole bindE_def
        backgroundLayer_def)
qed

lemma mapE_all:
  "(\<And>a. a \<in> set xs \<Longrightarrow> f a = Inr (g a)) \<Longrightarrow> mapE f xs = Inr (map g xs)"
  by (induction xs) simp_all

lemma gradient_length:
  assumes "getTextBoxColorGradient s = Inr g"
  shows "3 \<le> length g"
proof -
  have every: "\<forall>c \<in> set PREMIUM_TEXTBOX_COLORS. 3 \<le> length (snd c)"
    by (simp add: PREMIUM_TEXTBOX_COLORS_def)
  have first: "hd PREMIUM_TEXTBOX_COLORS \<in> set PREMIUM_TEXTBOX_COLORS"
    by (simp add: PREMIUM_TEXTBOX_COLORS_def)
  have "\<exists>c \<in> set PREMIUM_TEXTBOX_COLORS. g = snd c"
  proof (cases "find (\<lambda>c. fst c = s) PREMIUM_TEXTBOX_COLORS")
    case None
    then have "g = snd (hd PREMIUM_TEXTBOX_COLORS)"
      using assms by (simp add: getTextBoxColorGradient_def)
    then show ?thesis using first by blast
  next
    case (Some c)
    then have "g = snd c" using assms by (simp add: getTextBoxColorGradient_def)
    moreover have "c \<in> set PREMIUM_TEXTBOX_COLORS"
      using Some by (auto simp: find_Some_iff)
    ultimately show ?thesis by blast
  qed
  then show ?thesis using every by blast
qed

lemma calculateFontSize_loop_le:
  "calculateFontSize_loop t w h l fs \<le> fs"
proof (induction t w h l fs rule: calculateFontSize_loop.induct)
  case (1 t w h l fs)
  let ?total = "jsMulBy (jsMulBy (calculateTextLines t w (of_int fs)) (of_int fs)) l"
  show ?case
  proof (cases "fs > MIN_FONT_SIZE \<and> \<not> jsLe ?total (Finite (h - 20))")
    case True
    then have "calculateFontSize_loop t w h l (fs - 2) \<le> fs - 2"
      using 1[OF _ refl refl refl] by simp
    moreover have "calculateFontSize_loop t w h l fs = calculateFontSize_loop t w h l (fs - 2)"
      using True by (subst calculateFontSize_loop.simps) (simp add: Let_def)
    ultimately show ?thesis by simp
  next
    case False
    then have "calculateFontSize_loop t w h l fs = fs"
      by (subst calculateFontSize_loop.simps) (auto simp: Let_def)
    then show ?thesis by simp
  qed
qed

lemma calculateFontSize_bounds:
  "24 \<le> calculateFontSize t i w h \<and> calculateFontSize t i w h \<le> 48"
  using calculateFontSize_loop_le[of t w h "if i = ''title'' then TITLE_LINE_HEIGHT else CONTENT_LINE_HEIGHT" "getFontSizeForBox i"]
  by (auto simp: calculateFontSize_def Let_def getFontSizeForBox_def MIN_FONT_SIZE_def
      TITLE_FONT_SIZE_def CONTENT_FONT_SIZE_def)

lemma maxChars_ge1:
  assumes "151 \<le> w" "24 \<le> fs" "fs \<le> 48"
  shows "jsLe (Finite 1) (maxCharsPerLine w (of_int fs))"
proof -
  have pos: "0 < (of_int fs :: real) * (8 / 10)" using assms by simp
  have "(of_int fs :: real) * (8 / 10) \<le> 48 * (8 / 10)" using assms by simp
  also have "\<dots> \<le> w - 40" using assms by simp
  finally have "1 \<le> (w - 40) / (of_int fs * (8 / 10))" using pos by (simp add: le_divide_eq)
  then have "1 \<le> \<lfloor>(w - 40) / (of_int fs * (8 / 10))\<rfloor>" by (simp add: le_floor_iff)
  then show ?thesis using pos by (simp add: maxCharsPerLine_def Let_def)
qed

lemma createTextSvg_total:
  assumes "151 \<le> w" "24 \<le> fs" "fs \<le> 48"
  shows "\<exists>lines. createTextSvg t w h (of_int fs)
           = Some \<lparr>textLines = lines, textWidth = w, textHeight = h, textFontSize = of_int fs\<rparr>"
  using wrapText_paragraphs_total[OF maxChars_ge1[OF assms], of "splitOn LINE_FEED t" "[]"]
  by (auto simp: createTextSvg_def wrapText_def)

lemma hasText_trim: "hasText tbs b \<longleftrightarrow> \<not> trimIsEmpty (textOfBox tbs b)"
  by (simp add: hasText_def textOfBox_def trimIsEmpty_def split: option.splits)

lemma renderTextContent_loop_total:
  assumes "\<forall>b \<in> set bs. 151 \<le> width b \<and> 1 \<le> height b \<and> width b \<in> \<int> \<and> height b \<in> \<int>"
  shows "\<exists>texts. renderTextContent_loop tbs bs acc = Some (Inr (acc @ texts))
           \<and> list_all2 isGlyphLayer (filter (hasText tbs) bs) texts"
  using assms
proof (induction bs arbitrary: acc)
  case Nil
  then show ?case by simp
next
  case (Cons b bs)
  have dims: "151 \<le> width b" "1 \<le> height b" "width b \<in> \<int>" "height b \<in> \<int>"
    using Cons.prems by simp_all
  have rest: "\<forall>b \<in> set bs. 151 \<le> width b \<and> 1 \<le> height b \<and> width b \<in> \<int> \<and> height b \<in> \<int>"
    using Cons.prems by simp
  show ?case
  proof (cases "trimIsEmpty (textOfBox tbs b)")
    case True
    with Cons.IH[OF rest, of acc] show ?thesis by (simp add: hasText_trim)
  next
    case False
    let ?fs = "calculateFontSize (textOfBox tbs b) (boxId b) (width b) (height b)"
    have fs: "24 \<le> ?fs" "?fs \<le> 48"
      using calculateFontSize_bounds[of "textOfBox tbs b" "boxId b" "width b" "height b"]
      by simp_all
    obtain lines where svg: "createTextSvg (textOfBox tbs b) (width b) (height b) (of_int ?fs)
        = Some \<lparr>textLines = lines, textWidth = width b, textHeight = height b,
                textFontSize = of_int ?fs\<rparr>"
      using createTextSvg_total[OF dims(1) fs] by blast
    let ?svg = "\<lparr>textLines = lines, textWidth = width b, textHeight = height b,
                textFontSize = of_int ?fs\<rparr>"
    let ?layer = "(TextRaster \<lparr>pngWidth = width b, pngHeight = height b, pngSource = ?svg\<rparr>,
                   x b, y b)"
    have png: "sharpSvg (width b) (height b) ?svg
        = Inr \<lparr>pngWidth = width b, pngHeight = height b, pngSource = ?svg\<rparr>"
      using dims by (intro sharpSvg_whole) simp_all
    obtain texts where texts:
      "renderTextContent_loop tbs bs (acc @ [?layer]) = Some (Inr ((acc @ [?layer]) @ texts))"
      "list_all2 isGlyphLayer (filter (hasText tbs) bs) texts"
      using Cons.IH[OF rest, of "acc @ [?layer]"] by blast
    have glyph: "isGlyphLayer b ?layer"
      using fs by (simp add: isGlyphLayer_def)
    have "renderTextContent_loop tbs (b # bs) acc = Some (Inr (acc @ (?layer # texts)))"
      using False svg png texts(1) by (simp add: Let_def)
    moreover have "list_all2 isGlyphLayer (filter (hasText tbs) (b # bs)) (?layer # texts)"
      using False glyph texts(2) by (simp add: hasText_trim)
    ultimately show ?thesis by blast
  qed
qed

lemma renderTextBoxBackgrounds_layers:
  assumes "decodable base"
    and "\<forall>b \<in> set (getAllTextBoxes layout).
           151 \<le> width b \<and> 1 \<le> height b \<and> width b \<in> \<int> \<and> height b \<in> \<int>"
    and "0 \<le> glowPaddingOf glow"
    and "getTextBoxColorGradient (orDefault cid ''obsidian'') = Inr gradient"
    and "getBlurConfig (orDefault blurInt DEFAULT_BLUR_INTENSITY) = Inr blurCfg"
  shows "renderTextBoxBackgrounds base tbs cid (Some layout) preset tex blurInt glow
     = Inr (Composite base
         (concat (map (\<lambda>(i, b).
              [backgroundLayer b gradient (case tex of None \<Rightarrow> matte_paper | Some t \<Rightarrow> t) blurCfg,
               borderLayer b ENHANCED_TEXTBOX_BORDER 8 (Some 10) (''textbox'' @ showNat i) glow])
           (enumerate 0 (getAllTextBoxes layout)))))"
proof -
  let ?tex = "case tex of None \<Rightarrow> matte_paper | Some t \<Rightarrow> t"
  let ?g = "\<lambda>(i, b). [backgroundLayer b gradient ?tex blurCfg,
               borderLayer b ENHANCED_TEXTBOX_BORDER 8 (Some 10) (''textbox'' @ showNat i) glow]"
  have "mapE (panelLayers gradient ?tex blurCfg glow) (enumerate 0 (getAllTextBoxes layout))
      = Inr (map ?g (enumerate 0 (getAllTextBoxes layout)))"
  proof (rule mapE_all)
    fix a assume a: "a \<in> set (enumerate 0 (getAllTextBoxes layout))"
    obtain i b where ib: "a = (i, b)" by (cases a)
    have "b \<in> set (getAllTextBoxes layout)"
      using a ib by (auto simp: in_set_enumerate_eq)
    then have "151 \<le> width b" "1 \<le> height b" "width b \<in> \<int>" "height b \<in> \<int>"
      using assms(2) by simp_all
    then show "panelLayers gradient ?tex blurCfg glow a = Inr (?g a)"
      using panelLayers_result[of b glow gradient ?tex blurCfg i] assms(3)
        gradient_length[OF assms(4)] ib
      by simp
  qed
  then show ?thesis
    using assms(1,4,5)
    by (simp add: renderTextBoxBackgrounds_def bindE_def sharpComposite_def Let_def
        getTextureConfig_def DEFAULT_TEXTURE_TYPE_def cong: option.case_cong)
qed

lemma renderTextContent_layers:
  assumes "\<forall>b \<in> set (getAllTextBoxes layout).
             151 \<le> width b \<and> 1 \<le> height b \<and> width b \<in> \<int> \<and> height b \<in> \<int>"
    and "decodable base"
  shows "\<exists>img texts. renderTextContent base tbs (Some layout) = Some (Inr img)
     \<and> layers img = layers base @ texts
     \<and> list_all2 isGlyphLayer (filter (hasText tbs) (getAllTextBoxes layout)) texts"
proof -
  obtain texts where texts:
    "renderTextContent_loop tbs (getAllTextBoxes layout) [] = Some (Inr texts)"
    "list_all2 isGlyphLayer (filter (hasText tbs) (getAllTextBoxes layout)) texts"
    using renderTextContent_loop_total[OF assms(1), of tbs "[]"] by auto
  show ?thesis
  proof (cases "texts = []")
    case True
    then show ?thesis
      using texts by (intro exI[of _ base] exI[of _ "[]"]) (simp add: renderTextContent_def)
  next
    case False
    then show ?thesis
      using texts assms(2)
      by (intro exI[of _ "Composite base texts"] exI[of _ texts])
        (simp add: renderTextContent_def sharpComposite_def)
  qed
qed

lemma composeCard_core_outcome:
  assumes "byteLength (artworkBuffer options) \<noteq> 0"
    and "imageSize (backgroundBuffer options) \<noteq> None"
    and "imageSize (artworkBuffer options) = Some (w, h)" and "w \<noteq> 0" and "h \<noteq> 0"
  shows "\<exists>img cropPosition gradient blurCfg texts.
       snd (composeCard_core validate options) = Some (Inr img)
     \<and> getTextBoxColorGradient (orDefault (textBoxColorId options) ''obsidian'') = Inr gradient
     \<and> getBlurConfig (orDefault (blurIntensity options) DEFAULT_BLUR_INTENSITY) = Inr blurCfg
     \<and> layers img =
         [illustrationLayer (artworkBuffer options) (artworkFrame (composeCard_layout options))
            cropPosition,
          borderLayer (artworkFrame (composeCard_layout options)) ENHANCED_ARTWORK_BORDER 10 None
            ''artwork'' (composeCard_glow options)]
         @ concat (map (\<lambda>(i, b).
               [backgroundLayer b gradient
                  (case textureType options of None \<Rightarrow> matte_paper | Some t \<Rightarrow> t) blurCfg,
                borderLayer b ENHANCED_TEXTBOX_BORDER 8 (Some 10) (''textbox'' @ showNat i)
                  (composeCard_glow options)])
             (enumerate 0 (getAllTextBoxes (composeCard_layout options))))
         @ texts
     \<and> list_all2 isGlyphLayer
         (filter (hasText (textBoxes options)) (getAllTextBoxes (composeCard_layout options)))
         texts"
proof -
  let ?layout = "composeCard_layout options"
  let ?glow = "composeCard_glow options"
  let ?frame = "artworkFrame ?layout"
  let ?B0 = "ResizeCover (Input (backgroundBuffer options)) (cwidth (canvas ?layout))
               (cheight (canvas ?layout)) ''center''"
  let ?anchor = "case cropAnchor options of Some a \<Rightarrow> a
      | None \<Rightarrow> getDefaultCropAnchor (case cardLayoutVariant options of
            Some v \<Rightarrow> getLayoutModeFromVariant v
          | None \<Rightarrow> (case layoutMode options of None \<Rightarrow> landscape | Some m \<Rightarrow> m))"
  let ?art = "illustrationLayer (artworkBuffer options) ?frame (getCropPosition ?anchor)"
  let ?bl = "borderLayer ?frame ENHANCED_ARTWORK_BORDER 10 None ''artwork'' ?glow"
  let ?B2 = "Composite (Composite ?B0 [?art]) [?bl]"
  obtain gradient where g:
    "getTextBoxColorGradient (orDefault (textBoxColorId options) ''obsidian'') = Inr gradient"
    using getTextBoxColorGradient_Inr by blast
  obtain blurCfg where bl:
    "getBlurConfig (orDefault (blurIntensity options) DEFAULT_BLUR_INTENSITY) = Inr blurCfg"
    using getBlurConfig_Inr by blast
  let ?panels = "concat (map (\<lambda>(i, b).
               [backgroundLayer b gradient
                  (case textureType options of None \<Rightarrow> matte_paper | Some t \<Rightarrow> t) blurCfg,
                borderLayer b ENHANCED_TEXTBOX_BORDER 8 (Some 10) (''textbox'' @ showNat i) ?glow])
             (enumerate 0 (getAllTextBoxes ?layout)))"
  let ?B3 = "Composite ?B2 ?panels"
  have boxes: "\<forall>b \<in> set (getAllTextBoxes ?layout).
      151 \<le> width b \<and> 1 \<le> height b \<and> width b \<in> \<int> \<and> height b \<in> \<int>"
    using composeCard_box_dims by blast
  obtain r where r: "renderDoubleLineArtworkBorder ?frame None ?glow = Inr r"
    "(BorderRaster (buffer r), max 0 (posX r), max 0 (posY r)) = ?bl"
    using artwork_border_layer[of ?frame ?glow] composeCard_frame_dims[of options]
      composeCard_glow_padding[of options]
    by auto
  have B3: "renderTextBoxBackgrounds ?B2 (textBoxes options) (textBoxColorId options)
      (Some ?layout) (borderPreset options) (textureType options) (blurIntensity options) ?glow
     = Inr ?B3"
    by (rule renderTextBoxBackgrounds_layers[OF _ boxes composeCard_glow_padding g bl])
      (simp add: decodable_def)
  obtain img texts where img:
    "renderTextContent ?B3 (textBoxes options) (Some ?layout) = Some (Inr img)"
    "layers img = layers ?B3 @ texts"
    "list_all2 isGlyphLayer
       (filter (hasText (textBoxes options)) (getAllTextBoxes ?layout)) texts"
    using renderTextContent_layers[OF boxes, of ?B3 "textBoxes options"]
    by (auto simp: decodable_def)
  have "snd (composeCard_core validate options) = Some (Inr img)"
    using assms B3 img(1) r
    by (simp add: composeCard_core_def Let_def composeCard_layout_def[symmetric]
        composeCard_glow_def[symmetric] bindE_def resizeAndCropArtwork_def sharpComposite_def
        decodable_def illustrationLayer_def)
  moreover have "layers img = [?art, ?bl] @ ?panels @ texts"
    using img(2) by simp
  ultimately show ?thesis
    using g bl img(3) by blast
qed

lemma validation_independent:
  "snd (composeCard_core validate options) = snd (composeCard options)"
  by (simp add: composeCard_def composeCard_core_def Let_def)

lemma composeCard_warnings:
  "fst (composeCard options) =
     (if valid (validateLayoutBorders (composeCard_layout options) (composeCard_glow options))
      then []
      else [errors (validateLayoutBorders (composeCard_layout options) (composeCard_glow options))])"
  by (simp add: composeCard_def composeCard_core_def Let_def composeCard_layout_def
      composeCard_glow_def)

section \<open>Validation is advisory\<close>

lemma mini_layout_eval:
  "composeCard_layout miniOptions =
    \<lparr>canvas = \<lparr>cwidth = 1024, cheight = 768\<rparr>,
     artworkFrame = mkFrame 182 143 273 482,
     titleBox = mkBox ''title'' 490 143 353 70,
     contentBoxes = [mkBox ''content1'' 490 248 159 171, mkBox ''content2'' 684 248 159 171,
                     mkBox ''content3'' 490 454 159 171, mkBox ''content4'' 684 454 159 171]\<rparr>"
  by (simp add: composeCard_layout_def miniOptions_def composeCard_scaledLayout_def
      getLayoutConfigByVariant_def scale_eval)

lemma upt4: "[0..<4] = [0,1,2,3]" "[Suc 0..<4] = [1,2,3]" "[2..<4] = [2,3]" "[3..<4] = [3]" "[4..<4] = []"
  by code_simp+

lemma mini_validation:
  "validateLayoutBorders (composeCard_layout miniOptions) (composeCard_glow miniOptions)
     = \<lparr>valid = False,
        errors = [ArtworkTitleGap, TitleContentGap 1, TitleContentGap 2, ContentContentGap 1 2,
                  ContentContentGap 1 3, ContentContentGap 2 4, ContentContentGap 3 4]\<rparr>"
  unfolding mini_layout_eval
  by (simp add: validateLayoutBorders_def Let_def composeCard_glow_def miniOptions_def
      validateBorderWithinCanvas_def validateBorderGap_def default_spaces mkFrame_def mkBox_def
      MIN_BORDER_GAP_def upt4)

lemma mini_buffers:
  "byteLength (artworkBuffer miniOptions) \<noteq> 0"
  "imageSize (backgroundBuffer miniOptions) \<noteq> None"
  "imageSize (artworkBuffer miniOptions) = Some (720, 1280)"
  by (simp_all add: miniOptions_def sampleBuffer_def)

text \<open>
  C4. Geometry validation is advisory. The outcome of \<open>composeCard\<close> (error, image or
  no return) is the same whatever the validation function reports; the only trace of a
  failed validation is one warning carrying its errors. With the mini preset on the
  landscape-square variant the validation fails on seven gaps, and the card is composed
  all the same.
\<close>

theorem validation_is_advisory:
  "snd (composeCard_core validate options) = snd (composeCard options)
   \<and> fst (composeCard options) =
       (if valid (validateLayoutBorders (composeCard_layout options) (composeCard_glow options))
        then []
        else [errors (validateLayoutBorders (composeCard_layout options)
                        (composeCard_glow options))])
   \<and> \<not> valid (validateLayoutBorders (composeCard_layout miniOptions)
               (composeCard_glow miniOptions))
   \<and> fst (composeCard miniOptions) =
       [[ArtworkTitleGap, TitleContentGap 1, TitleContentGap 2, ContentContentGap 1 2,
         ContentContentGap 1 3, ContentContentGap 2 4, ContentContentGap 3 4]]
   \<and> (\<exists>img. snd (composeCard miniOptions) = Some (Inr img))"
proof -
  have "\<exists>img. snd (composeCard miniOptions) = Some (Inr img)"
    using composeCard_core_outcome[OF mini_buffers, of validateLayoutBorders]
    by (auto simp: composeCard_def)
  then show ?thesis
    by (simp add: validation_independent composeCard_warnings mini_validation)
qed

section \<open>Panels without text\<close>

lemma scenario_layout:
  "composeCard_layout scenarioOptions = LAYOUT_VARIANTS landscape_square"
  by (simp add: composeCard_layout_def scenarioOptions_def composeCard_scaledLayout_def
      getLayoutConfigByVariant_def)

lemma scenario_boxes:
  "getAllTextBoxes (LAYOUT_VARIANTS landscape_square) =
     [mkBox ''title'' 480 40 504 100, mkBox ''content1'' 480 190 227 244,
      mkBox ''content2'' 757 190 227 244, mkBox ''content3'' 480 484 227 244,
      mkBox ''content4'' 757 484 227 244]"
  by (simp add: getAllTextBoxes_def LAYOUT_VARIANTS_def)

lemma scenario_texts:
  "filter (hasText (textBoxes scenarioOptions)) (getAllTextBoxes (composeCard_layout scenarioOptions))
     = [mkBox ''title'' 480 40 504 100]"
  unfolding scenario_layout scenario_boxes
  by (simp add: scenarioOptions_def hasText_def isJsWhiteSpace_def mkBox_def)

lemma showNat_digits:
  "showNat 0 = ''0''" "showNat (Suc 0) = ''1''" "showNat (Suc (Suc 0)) = ''2''"
  "showNat (Suc (Suc (Suc 0))) = ''3''" "showNat (Suc (Suc (Suc (Suc 0)))) = ''4''"
  by code_simp+

lemma scenario_lookups:
  "getTextBoxColorGradient (orDefault (textBoxColorId scenarioOptions) ''obsidian'')
     = Inr obsidianGradient"
  "getBlurConfig (orDefault (blurIntensity scenarioOptions) DEFAULT_BLUR_INTENSITY)
     = Inr (Own mediumBlur)"
  "composeCard_glow scenarioOptions = Some (GLOW_PRESETS medium)"
  by (simp_all add: scenarioOptions_def orDefault_def getTextBoxColorGradient_def
      PREMIUM_TEXTBOX_COLORS_def obsidianGradient_def getBlurConfig_def lookupKey_def
      BLUR_PRESETS_def mediumBlur_def composeCard_glow_def getGlowConfig_def)

text \<open>
  C8. A text panel without a matching text entry, or whose text is empty or blank, is no
  error. With a non-empty illustration buffer and decodable images \<open>composeCard\<close>
  returns an image whose layers are, in this order: the illustration at the frame's
  position and the illustration border; then for each of the five panels (title,
  content1 to content4), whatever the text entries are, its background layer (a raster of
  the panel's size at the panel's position, in the gradient, texture and blur selected)
  and its border layer (a raster larger than the panel by ring 8 plus glow padding on
  every side, placed that far up and left of the panel, not beyond the origin); then
  one glyph layer for each panel that has text, and none for a panel that has no entry
  or only white space.
\<close>

theorem missing_text_is_not_an_error:
  assumes "byteLength (artworkBuffer options) \<noteq> 0"
    and "imageSize (backgroundBuffer options) \<noteq> None"
    and "imageSize (artworkBuffer options) = Some (w, h)" and "w \<noteq> 0" and "h \<noteq> 0"
  shows "\<exists>img cropPosition gradient blurCfg texts.
       snd (composeCard options) = Some (Inr img)
     \<and> getTextBoxColorGradient (orDefault (textBoxColorId options) ''obsidian'') = Inr gradient
     \<and> getBlurConfig (orDefault (blurIntensity options) DEFAULT_BLUR_INTENSITY) = Inr blurCfg
     \<and> layers img =
         [illustrationLayer (artworkBuffer options) (artworkFrame (composeCard_layout options))
            cropPosition,
          borderLayer (artworkFrame (composeCard_layout options)) ENHANCED_ARTWORK_BORDER 10 None
            ''artwork'' (composeCard_glow options)]
         @ concat (map (\<lambda>(i, b).
               [backgroundLayer b gradient
                  (case textureType options of None \<Rightarrow> matte_paper | Some t \<Rightarrow> t) blurCfg,
                borderLayer b ENHANCED_TEXTBOX_BORDER 8 (Some 10) (''textbox'' @ showNat i)
                  (composeCard_glow options)])
             (enumerate 0 (getAllTextBoxes (composeCard_layout options))))
         @ texts
     \<and> list_all2 isGlyphLayer
         (filter (hasText (textBoxes options)) (getAllTextBoxes (composeCard_layout options)))
         texts
     \<and> map boxId (getAllTextBoxes (composeCard_layout options))
         = [''title'', ''content1'', ''content2'', ''content3'', ''content4'']"
  using composeCard_core_outcome[OF assms, of validateLayoutBorders]
  unfolding composeCard_def by (simp add: composeCard_box_ids)

theorem missing_text_is_not_an_error_witness:
  "byteLength (artworkBuffer scenarioOptions) \<noteq> 0
   \<and> imageSize (backgroundBuffer scenarioOptions) \<noteq> None
   \<and> imageSize (artworkBuffer scenarioOptions) = Some (720, 1280)
   \<and> (\<exists>img cropPosition texts.
         snd (composeCard scenarioOptions) = Some (Inr img)
       \<and> layers img =
           [illustrationLayer (sampleBuffer 720 1280) (mkFrame 40 40 390 688) cropPosition,
            borderLayer (mkFrame 40 40 390 688) ENHANCED_ARTWORK_BORDER 10 None ''artwork''
              (Some (GLOW_PRESETS medium)),
            backgroundLayer (mkBox ''title'' 480 40 504 100) obsidianGradient matte_paper
              (Own mediumBlur),
            borderLayer (mkBox ''title'' 480 40 504 100) ENHANCED_TEXTBOX_BORDER 8 (Some 10)
              ''textbox0'' (Some (GLOW_PRESETS medium)),
            backgroundLayer (mkBox ''content1'' 480 190 227 244) obsidianGradient matte_paper
              (Own mediumBlur),
            borderLayer (mkBox ''content1'' 480 190 227 244) ENHANCED_TEXTBOX_BORDER 8 (Some 10)
              ''textbox1'' (Some (GLOW_PRESETS medium)),
            backgroundLayer (mkBox ''content2'' 757 190 227 244) obsidianGradient matte_paper
              (Own mediumBlur),
            borderLayer (mkBox ''content2'' 757 190 227 244) ENHANCED_TEXTBOX_BORDER 8 (Some 10)
              ''textbox2'' (Some (GLOW_PRESETS medium)),
            backgroundLayer (mkBox ''content3'' 480 484 227 244) obsidianGradient matte_paper
              (Own mediumBlur),
            borderLayer (mkBox ''content3'' 480 484 227 244) ENHANCED_TEXTBOX_BORDER 8 (Some 10)
              ''textbox3'' (Some (GLOW_PRESETS medium)),
            backgroundLayer (mkBox ''content4'' 757 484 227 244) obsidianGradient matte_paper
              (Own mediumBlur),
            borderLayer (mkBox ''content4'' 757 484 227 244) ENHANCED_TEXTBOX_BORDER 8 (Some 10)
              ''textbox4'' (Some (GLOW_PRESETS medium))]
           @ texts
       \<and> list_all2 isGlyphLayer [mkBox ''title'' 480 40 504 100] texts)
   \<and> hasText (textBoxes scenarioOptions) (mkBox ''title'' 480 40 504 100)
   \<and> \<not> hasText (textBoxes scenarioOptions) (mkBox ''content1'' 480 190 227 244)
   \<and> \<not> hasText (textBoxes scenarioOptions) (mkBox ''content2'' 757 190 227 244)
   \<and> \<not> hasText (textBoxes scenarioOptions) (mkBox ''content3'' 480 484 227 244)
   \<and> \<not> hasText (textBoxes scenarioOptions) (mkBox ''content4'' 757 484 227 244)
   \<and> backgroundLayer (mkBox ''content2'' 757 190 227 244) obsidianGradient matte_paper
        (Own mediumBlur)
       = (PanelRaster \<lparr>pngWidth = 227, pngHeight = 244,
                       pngSource = \<lparr>panelWidth = 227, panelHeight = 244,
                                    panelGradient = obsidianGradient,
                                    panelTexture = matte_paper,
                                    panelBlur = Own mediumBlur\<rparr>\<rparr>, 757, 190)
   \<and> borderLayer (mkBox ''content2'' 757 190 227 244) ENHANCED_TEXTBOX_BORDER 8 (Some 10)
        ''textbox2'' (Some (GLOW_PRESETS medium))
       = (BorderRaster \<lparr>pngWidth = 261, pngHeight = 278,
                        pngSource = \<lparr>svgWidth = 261, svgHeight = 278,
                                     svgStyle = ENHANCED_TEXTBOX_BORDER, svgRadius = Some 10,
                                     svgId = ''textbox2'',
                                     svgGlow = GLOW_PRESETS medium\<rparr>\<rparr>, 740, 173)"
proof -
  have b: "byteLength (artworkBuffer scenarioOptions) \<noteq> 0"
    "imageSize (backgroundBuffer scenarioOptions) \<noteq> None"
    "imageSize (artworkBuffer scenarioOptions) = Some (720, 1280)"
    by (simp_all add: scenarioOptions_def sampleBuffer_def)
  obtain img cropPosition gradient blurCfg texts where H:
    "snd (composeCard scenarioOptions) = Some (Inr img)"
    "getTextBoxColorGradient (orDefault (textBoxColorId scenarioOptions) ''obsidian'')
       = Inr gradient"
    "getBlurConfig (orDefault (blurIntensity scenarioOptions) DEFAULT_BLUR_INTENSITY)
       = Inr blurCfg"
    "layers img =
         [illustrationLayer (artworkBuffer scenarioOptions)
            (artworkFrame (composeCard_layout scenarioOptions)) cropPosition,
          borderLayer (artworkFrame (composeCard_layout scenarioOptions)) ENHANCED_ARTWORK_BORDER
            10 None ''artwork'' (composeCard_glow scenarioOptions)]
         @ concat (map (\<lambda>(i, b).
               [backgroundLayer b gradient
                  (case textureType scenarioOptions of None \<Rightarrow> matte_paper | Some t \<Rightarrow> t)
                  blurCfg,
                borderLayer b ENHANCED_TEXTBOX_BORDER 8 (Some 10) (''textbox'' @ showNat i)
                  (composeCard_glow scenarioOptions)])
             (enumerate 0 (getAllTextBoxes (composeCard_layout scenarioOptions))))
         @ texts"
    "list_all2 isGlyphLayer
         (filter (hasText (textBoxes scenarioOptions))
            (getAllTextBoxes (composeCard_layout scenarioOptions)))
         texts"
    using missing_text_is_not_an_error[OF b] by auto
  have g: "gradient = obsidianGradient" "blurCfg = Own mediumBlur"
    using H(2,3) by (simp_all add: scenario_lookups)
  have frame: "artworkFrame (LAYOUT_VARIANTS landscape_square) = mkFrame 40 40 390 688"
    by (simp add: LAYOUT_VARIANTS_def)
  have opts: "artworkBuffer scenarioOptions = sampleBuffer 720 1280"
    "textureType scenarioOptions = Some matte_paper"
    by (simp_all add: scenarioOptions_def)
  have L: "layers img =
           [illustrationLayer (sampleBuffer 720 1280) (mkFrame 40 40 390 688) cropPosition,
            borderLayer (mkFrame 40 40 390 688) ENHANCED_ARTWORK_BORDER 10 None ''artwork''
              (Some (GLOW_PRESETS medium)),
            backgroundLayer (mkBox ''title'' 480 40 504 100) obsidianGradient matte_paper
              (Own mediumBlur),
            borderLayer (mkBox ''title'' 480 40 504 100) ENHANCED_TEXTBOX_BORDER 8 (Some 10)
              ''textbox0'' (Some (GLOW_PRESETS medium)),
            backgroundLayer (mkBox ''content1'' 480 190 227 244) obsidianGradient matte_paper
              (Own mediumBlur),
            borderLayer (mkBox ''content1'' 480 190 227 244) ENHANCED_TEXTBOX_BORDER 8 (Some 10)
              ''textbox1'' (Some (GLOW_PRESETS medium)),
            backgroundLayer (mkBox ''content2'' 757 190 227 244) obsidianGradient matte_paper
              (Own mediumBlur),
            borderLayer (mkBox ''content2'' 757 190 227 244) ENHANCED_TEXTBOX_BORDER 8 (Some 10)
              ''textbox2'' (Some (GLOW_PRESETS medium)),
            backgroundLayer (mkBox ''content3'' 480 484 227 244) obsidianGradient matte_paper
              (Own mediumBlur),
            borderLayer (mkBox ''content3'' 480 484 227 244) ENHANCED_TEXTBOX_BORDER 8 (Some 10)
              ''textbox3'' (Some (GLOW_PRESETS medium)),
            backgroundLayer (mkBox ''content4'' 757 484 227 244) obsidianGradient matte_paper
              (Own mediumBlur),
            borderLayer (mkBox ''content4'' 757 484 227 244) ENHANCED_TEXTBOX_BORDER 8 (Some 10)
              ''textbox4'' (Some (GLOW_PRESETS medium))]
           @ texts"
    using H(4)
    by (simp add: g scenario_layout scenario_boxes scenario_lookups frame opts showNat_digits)
  have T: "list_all2 isGlyphLayer [mkBox ''title'' 480 40 504 100] texts"
    using H(5) by (simp add: scenario_texts)
  have A: "\<exists>img cropPosition texts.
         snd (composeCard scenarioOptions) = Some (Inr img)
       \<and> layers img =
           [illustrationLayer (sampleBuffer 720 1280) (mkFrame 40 40 390 688) cropPosition,
            borderLayer (mkFrame 40 40 390 688) ENHANCED_ARTWORK_BORDER 10 None ''artwork''
              (Some (GLOW_PRESETS medium)),
            backgroundLayer (mkBox ''title'' 480 40 504 100) obsidianGradient matte_paper
              (Own mediumBlur),
            borderLayer (mkBox ''title'' 480 40 504 100) ENHANCED_TEXTBOX_BORDER 8 (Some 10)
              ''textbox0'' (Some (GLOW_PRESETS medium)),
            backgroundLayer (mkBox ''content1'' 480 190 227 244) obsidianGradient matte_paper
              (Own mediumBlur),
            borderLayer (mkBox ''content1'' 480 190 227 244) ENHANCED_TEXTBOX_BORDER 8 (Some 10)
              ''textbox1'' (Some (GLOW_PRESETS medium)),
            backgroundLayer (mkBox ''content2'' 757 190 227 244) obsidianGradient matte_paper
              (Own mediumBlur),
            borderLayer (mkBox ''content2'' 757 190 227 244) ENHANCED_TEXTBOX_BORDER 8 (Some 10)
              ''textbox2'' (Some (GLOW_PRESETS medium)),
            backgroundLayer (mkBox ''content3'' 480 484 227 244) obsidianGradient matte_paper
              (Own mediumBlur),
            borderLayer (mkBox ''content3'' 480 484 227 244) ENHANCED_TEXTBOX_BORDER 8 (Some 10)
              ''textbox3'' (Some (GLOW_PRESETS medium)),
            backgroundLayer (mkBox ''content4'' 757 484 227 244) obsidianGradient matte_paper
              (Own mediumBlur),
            borderLayer (mkBox ''content4'' 757 484 227 244) ENHANCED_TEXTBOX_BORDER 8 (Some 10)
              ''textbox4'' (Some (GLOW_PRESETS medium))]
           @ texts
       \<and> list_all2 isGlyphLayer [mkBox ''title'' 480 40 504 100] texts"
    using H(1) L T by (intro exI[of _ img] exI[of _ cropPosition] exI[of _ texts] conjI)
  have N: "hasText (textBoxes scenarioOptions) (mkBox ''title'' 480 40 504 100)"
    "\<not> hasText (textBoxes scenarioOptions) (mkBox ''content1'' 480 190 227 244)"
    "\<not> hasText (textBoxes scenarioOptions) (mkBox ''content2'' 757 190 227 244)"
    "\<not> hasText (textBoxes scenarioOptions) (mkBox ''content3'' 480 484 227 244)"
    "\<not> hasText (textBoxes scenarioOptions) (mkBox ''content4'' 757 484 227 244)"
    by (simp_all add: scenarioOptions_def hasText_def isJsWhiteSpace_def mkBox_def)
  have P: "backgroundLayer (mkBox ''content2'' 757 190 227 244) obsidianGradient matte_paper
        (Own mediumBlur)
       = (PanelRaster \<lparr>pngWidth = 227, pngHeight = 244,
                       pngSource = \<lparr>panelWidth = 227, panelHeight = 244,
                                    panelGradient = obsidianGradient,
                                    panelTexture = matte_paper,
                                    panelBlur = Own mediumBlur\<rparr>\<rparr>, 757, 190)"
    by (simp add: backgroundLayer_def mkBox_def)
  have Q: "borderLayer (mkBox ''content2'' 757 190 227 244) ENHANCED_TEXTBOX_BORDER 8 (Some 10)
        ''textbox2'' (Some (GLOW_PRESETS medium))
       = (BorderRaster \<lparr>pngWidth = 261, pngHeight = 278,
                        pngSource = \<lparr>svgWidth = 261, svgHeight = 278,
                                     svgStyle = ENHANCED_TEXTBOX_BORDER, svgRadius = Some 10,
                                     svgId = ''textbox2'',
                                     svgGlow = GLOW_PRESETS medium\<rparr>\<rparr>, 740, 173)"
    by (simp add: borderLayer_def mkBox_def glowPaddingOf_def Let_def Math_ceil_def)
      (simp add: GLOW_PRESETS_def)
  from b A N P Q show ?thesis by (intro conjI)
qed

end
